theory Spec2Isabelle
  imports Complex_Main "HOL-Library.Log_Nat"
begin

section \<open>JavaScript values\<close>

text \<open>
  A JavaScript string is a sequence of UTF-16 code units, and \<open>length\<close> counts them.
  A code unit is modelled as a natural number (always below 65536 in a real string); the
  rupee sign of the price strings is the single code unit U+20B9.  \<open>js\<close> turns an ASCII
  literal into its code units.
\<close>

type_synonym jsstring = "nat list"

abbreviation js :: "string \<Rightarrow> jsstring" where
  "js s \<equiv> map of_char s"

definition rupee :: nat where
  "rupee = 8377"

text \<open>
  JavaScript numbers are IEEE doubles.  A finite double is modelled by the rational number
  it denotes; the two zeros are not told apart (they are equal under \<open>===\<close> and print the
  same under \<open>toFixed\<close>).
\<close>

datatype jsnum = NaN | Fin rat | PInf | NInf

text \<open>
  The values a field of a request body or of a stored document may hold.  \<open>JObject\<close>
  stands for every value whose \<open>typeof\<close> is neither \<open>'string'\<close>, \<open>'number'\<close>,
  \<open>'boolean'\<close> nor \<open>'undefined'\<close> and that is not \<open>null\<close>: arrays, plain objects, dates.
\<close>

datatype jsval = JUndefined | JNull | JBool bool | JNum jsnum | JStr jsstring | JObject

text \<open>Truthiness, as \<open>!x\<close> and \<open>x || y\<close> test it.\<close>

fun truthy_num :: "jsnum \<Rightarrow> bool" where
  "truthy_num NaN = False"
| "truthy_num (Fin r) = (r \<noteq> 0)"
| "truthy_num PInf = True"
| "truthy_num NInf = True"

fun truthy :: "jsval \<Rightarrow> bool" where
  "truthy JUndefined = False"
| "truthy JNull = False"
| "truthy (JBool b) = b"
| "truthy (JNum n) = truthy_num n"
| "truthy (JStr s) = (s \<noteq> [])"
| "truthy JObject = True"

section \<open>Validation and sanitisation utility\<close>

text \<open>
  \<^verbatim>\<open>value.replace(/[<>"'&]/g, '')\<close>: the global replace scans the string from left to
  right and replaces every code unit of the class by the empty string.
\<close>

definition dangerous :: "nat list" where
  "dangerous = [60, 62, 34, 39, 38]"

fun replace_class_g :: "nat list \<Rightarrow> jsstring \<Rightarrow> jsstring" where
  "replace_class_g cls [] = []"
| "replace_class_g cls (c # cs) =
     (if c \<in> set cls then replace_class_g cls cs else c # replace_class_g cls cs)"

text \<open>
  \<^verbatim>\<open>validateInput.string(value, maxLength = 100)\<close>.  \<open>None\<close> is the \<open>null\<close> it returns
  on rejection.  Every caller in the repository passes \<open>maxLength\<close>; the default is
  \<open>validateInput_string_default\<close>.
\<close>

fun validateInput_string :: "jsval \<Rightarrow> nat \<Rightarrow> jsstring option" where
  "validateInput_string (JStr s) maxLength =
     (if length s > maxLength then None else Some (replace_class_g dangerous s))"
| "validateInput_string v maxLength = None"

definition validateInput_string_default :: "jsval \<Rightarrow> jsstring option" where
  "validateInput_string_default v = validateInput_string v 100"

section \<open>Numbers: IEEE doubles, \<open>parseFloat\<close> and \<open>toFixed\<close>\<close>

text \<open>
  Rounding of a real value to the nearest double, ties to the even significand: 53
  significant bits, least exponent \<open>-1022\<close> (below it the spacing stays \<open>2^-1074\<close>), and
  overflow to an infinity from \<open>2^1024\<close> on.
\<close>

definition pow2 :: "int \<Rightarrow> rat" where
  "pow2 e = (if 0 \<le> e then 2 ^ nat e else 1 / 2 ^ nat (- e))"

definition pow10 :: "int \<Rightarrow> rat" where
  "pow10 e = (if 0 \<le> e then 10 ^ nat e else 1 / 10 ^ nat (- e))"

text \<open>\<open>floor_log2 x\<close> is the \<open>e\<close> with \<open>2^e \<le> x < 2^(e+1)\<close>, for positive \<open>x\<close>.\<close>

definition floor_log2 :: "rat \<Rightarrow> int" where
  "floor_log2 x =
     (let (a, b) = quotient_of x;
          d = bitlen a - bitlen b
      in if pow2 d \<le> x then d else d - 1)"

definition round_half_even :: "rat \<Rightarrow> int" where
  "round_half_even y =
     (let f = \<lfloor>y\<rfloor>; d = y - of_int f
      in if d < 1 / 2 then f else if 1 / 2 < d then f + 1 else if even f then f else f + 1)"

definition fl_round :: "rat \<Rightarrow> jsnum" where
  "fl_round x =
     (if x = 0 then Fin 0
      else let a = \<bar>x\<bar>;
               q = pow2 (max (floor_log2 a) (- 1022) - 52);
               r = of_int (round_half_even (a / q)) * q
           in if 1024 \<le> floor_log2 r then (if x < 0 then NInf else PInf)
              else Fin (if x < 0 then - r else r))"

text \<open>The operators \<open>+\<close> and \<open>*\<close> on numbers.\<close>

fun js_add :: "jsnum \<Rightarrow> jsnum \<Rightarrow> jsnum" where
  "js_add NaN y = NaN"
| "js_add x NaN = NaN"
| "js_add PInf NInf = NaN"
| "js_add NInf PInf = NaN"
| "js_add PInf y = PInf"
| "js_add NInf y = NInf"
| "js_add x PInf = PInf"
| "js_add x NInf = NInf"
| "js_add (Fin a) (Fin b) = fl_round (a + b)"

fun js_mul :: "jsnum \<Rightarrow> jsnum \<Rightarrow> jsnum" where
  "js_mul NaN y = NaN"
| "js_mul x NaN = NaN"
| "js_mul (Fin a) (Fin b) = fl_round (a * b)"
| "js_mul (Fin a) PInf = (if a = 0 then NaN else if 0 < a then PInf else NInf)"
| "js_mul (Fin a) NInf = (if a = 0 then NaN else if 0 < a then NInf else PInf)"
| "js_mul PInf (Fin b) = (if b = 0 then NaN else if 0 < b then PInf else NInf)"
| "js_mul NInf (Fin b) = (if b = 0 then NaN else if 0 < b then NInf else PInf)"
| "js_mul PInf PInf = PInf"
| "js_mul PInf NInf = NInf"
| "js_mul NInf PInf = NInf"
| "js_mul NInf NInf = PInf"

text \<open>
  \<open>parseFloat\<close>: leading white space is skipped, then the longest prefix that is a
  \<open>StrDecimalLiteral\<close> is read: a sign, then \<open>Infinity\<close> or decimal digits with an
  optional fraction and an optional exponent.  With no such prefix the result is \<open>NaN\<close>.
\<close>

definition is_ws :: "nat \<Rightarrow> bool" where
  "is_ws c \<longleftrightarrow> c \<in> {9, 10, 11, 12, 13, 32, 160, 5760, 8232, 8233, 8239, 8287, 12288, 65279}
     \<or> (8192 \<le> c \<and> c \<le> 8202)"

definition is_digit :: "nat \<Rightarrow> bool" where
  "is_digit c \<longleftrightarrow> 48 \<le> c \<and> c \<le> 57"

definition digits_val :: "jsstring \<Rightarrow> int" where
  "digits_val ds = foldl (\<lambda>a d. 10 * a + (int d - 48)) 0 ds"

text \<open>The exponent part: \<open>e\<close> or \<open>E\<close>, an optional sign, at least one digit; otherwise none.\<close>

definition exponent_part :: "jsstring \<Rightarrow> int" where
  "exponent_part s =
     (case s of
        [] \<Rightarrow> 0
      | c # t \<Rightarrow>
          if c = 101 \<or> c = 69 then
            (case t of
               [] \<Rightarrow> 0
             | g # u \<Rightarrow>
                 if g = 43 then (if takeWhile is_digit u = [] then 0 else digits_val (takeWhile is_digit u))
                 else if g = 45 then (if takeWhile is_digit u = [] then 0 else - digits_val (takeWhile is_digit u))
                 else if takeWhile is_digit t = [] then 0 else digits_val (takeWhile is_digit t))
          else 0)"

definition unsigned_decimal :: "jsstring \<Rightarrow> rat option" where
  "unsigned_decimal s =
     (let ip = takeWhile is_digit s;
          r1 = dropWhile is_digit s;
          fp = (case r1 of [] \<Rightarrow> [] | c # t \<Rightarrow> if c = 46 then takeWhile is_digit t else []);
          r2 = (case r1 of [] \<Rightarrow> [] | c # t \<Rightarrow> if c = 46 then dropWhile is_digit t else r1)
      in if ip = [] \<and> fp = [] then None
         else Some (of_int (digits_val (ip @ fp)) * pow10 (exponent_part r2 - int (length fp))))"

definition unsigned_literal :: "jsstring \<Rightarrow> jsnum" where
  "unsigned_literal s =
     (if take 8 s = js ''Infinity'' then PInf
      else case unsigned_decimal s of None \<Rightarrow> NaN | Some m \<Rightarrow> fl_round m)"

fun js_neg :: "jsnum \<Rightarrow> jsnum" where
  "js_neg NaN = NaN"
| "js_neg (Fin a) = Fin (- a)"
| "js_neg PInf = NInf"
| "js_neg NInf = PInf"

definition parseFloat :: "jsstring \<Rightarrow> jsnum" where
  "parseFloat s =
     (case dropWhile is_ws s of
        [] \<Rightarrow> NaN
      | c # t \<Rightarrow>
          if c = 43 then unsigned_literal t
          else if c = 45 then js_neg (unsigned_literal t)
          else unsigned_literal (c # t))"

text \<open>
  \<open>x.toFixed(2)\<close>: for a finite \<open>x\<close> below \<open>10^21\<close> in magnitude, the integer \<open>n\<close> with
  \<open>n / 100\<close> nearest to the exact value of \<open>x\<close> (the larger \<open>n\<close> on a tie), printed
  with two decimals.  From \<open>10^21\<close> on the result is \<open>Number::toString\<close> of the value,
  which is not modelled: it is the parameter \<open>big\<close>.
\<close>

fun digits_of :: "nat \<Rightarrow> jsstring" where
  "digits_of n = (if n < 10 then [48 + n] else digits_of (n div 10) @ [48 + n mod 10])"

declare digits_of.simps [simp del]

definition toFixed2 :: "(rat \<Rightarrow> jsstring) \<Rightarrow> jsnum \<Rightarrow> jsstring" where
  "toFixed2 big x =
     (case x of
        NaN \<Rightarrow> js ''NaN''
      | PInf \<Rightarrow> js ''Infinity''
      | NInf \<Rightarrow> js ''-Infinity''
      | Fin r \<Rightarrow>
          (let s = (if r < 0 then [45] else []);
               a = \<bar>r\<bar>
           in if 10 ^ 21 \<le> a then s @ big a
              else let m = digits_of (nat \<lfloor>a * 100 + 1 / 2\<rfloor>);
                       m' = (if length m \<le> 2 then replicate (3 - length m) 48 @ m else m)
                   in s @ take (length m' - 2) m' @ [46] @ drop (length m' - 2) m'))"

section \<open>Asynchronous results\<close>

text \<open>
  An \<open>async\<close> function either fulfils with a value (\<open>Inr\<close>) or rejects with an error
  (\<open>Inl\<close>).  \<open>await\<close> passes the value on and lets a rejection propagate; \<open>try_catch\<close>
  is a \<open>try\<close> block with its \<open>catch\<close> handler.
\<close>

datatype error =
    NotConnected            \<comment> \<open>\<open>'Database not connected. Call connect() first.'\<close>\<close>
  | InvalidCollectionName   \<comment> \<open>\<open>'Invalid collection name'\<close>\<close>
  | InvalidServerData       \<comment> \<open>\<open>'Invalid server data: server_name, country, and flag are required'\<close>\<close>
  | InvalidServerId         \<comment> \<open>\<open>'Invalid server ID format'\<close>\<close>
  | TypeError               \<comment> \<open>a method called on a value that does not have it\<close>
  | DriverError             \<comment> \<open>the driver rejected a request (network, server, timeout)\<close>
  | DuplicateKey            \<comment> \<open>the server's unique index on \<open>_id\<close>\<close>

fun await :: "error + 'a \<Rightarrow> ('a \<Rightarrow> error + 'b) \<Rightarrow> error + 'b" where
  "await (Inl e) f = Inl e"
| "await (Inr v) f = f v"

fun try_catch :: "error + 'a \<Rightarrow> (error \<Rightarrow> error + 'a) \<Rightarrow> error + 'a" where
  "try_catch (Inl e) handler = handler e"
| "try_catch (Inr v) handler = Inr v"

section \<open>Documents and the store\<close>

text \<open>
  An entry of a user's \<open>transaction_history\<close>.  A missing \<open>type\<close> or \<open>reason\<close> behaves in
  every query of the repository like the empty string (it equals no literal and matches
  no pattern), so both are plain strings.  Dates are milliseconds since the epoch.
\<close>

record transaction =
  tx_type :: jsstring
  reason :: jsstring
  tx_created_at :: "int option"

text \<open>
  Documents are loosely shaped: one record carries every field the modelled code reads or
  writes, and \<open>None\<close> (or \<open>JUndefined\<close>, or the empty history) is a missing field.  \<open>oid\<close>
  is the \<open>_id\<close>, an ObjectId in its canonical form of 24 lower-case hexadecimal digits;
  \<open>balance\<close> is \<open>None\<close> also when it is not a number, which \<open>$sum\<close> ignores alike.
  Numbers are doubles (a stored integer is the double of the same value).
\<close>

record document =
  oid :: jsstring
  created_at :: "int option"
  balance :: "jsnum option"
  transaction_history :: "transaction list"
  price :: jsval
  users :: "jsnum option"
  server_name :: "jsstring option"
  country :: "jsstring option"
  flag :: "jsstring option"
  status :: "jsstring option"
  description :: "jsstring option"
  createdAt :: "int option"
  updatedAt :: "int option"
  last_sync :: "int option"
  doc_type :: "jsstring option"
  stat_todaysEarnings :: "jsstring option"
  stat_totalEarnings :: "jsstring option"
  stat_todaysUsers :: "jsnum option"
  stat_totalUsers :: "jsnum option"
  stat_todaysSold :: "jsnum option"
  stat_totalSold :: "jsnum option"

definition blank :: document where
  "blank = \<lparr> oid = [], created_at = None, balance = None, transaction_history = [],
     price = JUndefined, users = None, server_name = None, country = None, flag = None,
     status = None, description = None, createdAt = None, updatedAt = None,
     last_sync = None, doc_type = None, stat_todaysEarnings = None,
     stat_totalEarnings = None, stat_todaysUsers = None, stat_totalUsers = None,
     stat_todaysSold = None, stat_totalSold = None \<rparr>"

text \<open>The requests the repository sends to the driver, by kind.\<close>

datatype request =
    CountDocuments | CountCreatedSince
  | AggTotalBalance | AggRecentTransactions | AggNumberPurchases | AggTodaysNumberPurchases
  | FindAll | FindTopByUsers | FindLastSync
  | InsertOne | InsertMany | DeleteOne | UpdateOne

text \<open>
  The store: the state of the shared \<open>Database\<close> object (\<open>db_connected\<close> is
  \<open>this.db && this.isConnected\<close>), whether a fresh client can connect (\<open>reachable\<close>), the
  collections by name, and which requests on which collection the driver rejects.
\<close>

record store =
  db_connected :: bool
  reachable :: bool
  colls :: "jsstring \<Rightarrow> document list"
  faults :: "jsstring \<Rightarrow> request \<Rightarrow> bool"

text \<open>
  What the process takes from outside: environment variables, the clock, and the part of
  the engine's number printing that is not modelled.
\<close>

record environment =
  MONGODB_COLLECTION :: "jsstring option"
  DEFAULT_TODAYS_EARNINGS :: "jsstring option"
  DEFAULT_TODAYS_USERS :: jsnum    \<comment> \<open>\<open>parseInt(process.env.DEFAULT_TODAYS_USERS)\<close>\<close>
  DEFAULT_TODAYS_SOLD :: jsnum     \<comment> \<open>\<open>parseInt(process.env.DEFAULT_TODAYS_SOLD)\<close>\<close>
  number_toString :: "rat \<Rightarrow> jsstring"  \<comment> \<open>the engine's \<open>Number::toString\<close> from \<open>10^21\<close> on\<close>
  now :: int                       \<comment> \<open>\<open>new Date()\<close>\<close>
  today :: int                     \<comment> \<open>\<open>new Date()\<close> after \<open>setHours(0, 0, 0, 0)\<close>\<close>
  yesterday :: int                 \<comment> \<open>\<open>new Date()\<close> after \<open>setDate(getDate() - 1)\<close>\<close>

text \<open>\<open>getCollection(collectionName)\<close>: the handle is the collection's name.\<close>

definition getCollection :: "store \<Rightarrow> jsstring \<Rightarrow> error + jsstring" where
  "getCollection st collectionName =
     (if \<not> db_connected st then Inl NotConnected
      else case validateInput_string (JStr collectionName) 50 of
             None \<Rightarrow> Inl InvalidCollectionName
           | Some s \<Rightarrow> if s = [] then Inl InvalidCollectionName else Inr collectionName)"

section \<open>Driver requests that read\<close>

text \<open>\<open>collection.countDocuments()\<close> and \<open>countDocuments({ created_at: { $gte: d } })\<close>.\<close>

definition countDocuments :: "store \<Rightarrow> jsstring \<Rightarrow> error + nat" where
  "countDocuments st c =
     (if faults st c CountDocuments then Inl DriverError else Inr (length (colls st c)))"

definition since :: "int \<Rightarrow> int option \<Rightarrow> bool" where
  "since d x = (case x of None \<Rightarrow> False | Some v \<Rightarrow> d \<le> v)"

definition countDocuments_created_since :: "store \<Rightarrow> jsstring \<Rightarrow> int \<Rightarrow> error + nat" where
  "countDocuments_created_since st c d =
     (if faults st c CountCreatedSince then Inl DriverError
      else Inr (length (filter (\<lambda>u. since d (created_at u)) (colls st c))))"

text \<open>
  \<^verbatim>\<open>aggregate([{ $group: { _id: null, totalBalance: { $sum: "$balance" } } }])\<close>: no
  group for an empty collection, else one group with the sum of the numeric balances.
  The server's addition is taken to be the addition of doubles in document order.
\<close>

definition numeric_balances :: "document list \<Rightarrow> jsnum list" where
  "numeric_balances ds = concat (map (\<lambda>d. case balance d of None \<Rightarrow> [] | Some b \<Rightarrow> [b]) ds)"

definition aggregate_totalBalance :: "store \<Rightarrow> jsstring \<Rightarrow> error + jsnum list" where
  "aggregate_totalBalance st c =
     (if faults st c AggTotalBalance then Inl DriverError
      else Inr (if colls st c = [] then []
                else [foldl js_add (Fin 0) (numeric_balances (colls st c))]))"

text \<open>
  The pattern \<^verbatim>\<open>/number|purchase|bought/i\<close>: an unanchored search for one of the
  literals, letters compared without case.  The search tries every start position from
  the left, and at each the alternatives in their order.
\<close>

definition lower :: "nat \<Rightarrow> nat" where
  "lower c = (if 65 \<le> c \<and> c \<le> 90 then c + 32 else c)"

fun literal_at :: "jsstring \<Rightarrow> jsstring \<Rightarrow> bool" where
  "literal_at [] s = True"
| "literal_at (p # ps) [] = False"
| "literal_at (p # ps) (c # cs) = (lower p = lower c \<and> literal_at ps cs)"

fun regex_search_i :: "jsstring list \<Rightarrow> jsstring \<Rightarrow> bool" where
  "regex_search_i alts [] = list_ex (\<lambda>a. literal_at a []) alts"
| "regex_search_i alts (c # cs) =
     (list_ex (\<lambda>a. literal_at a (c # cs)) alts \<or> regex_search_i alts cs)"

definition number_purchase_bought :: "jsstring list" where
  "number_purchase_bought = [js ''number'', js ''purchase'', js ''bought'']"

text \<open>
  The \<open>$match\<close> stage of the number-purchase pipelines:
  \<^verbatim>\<open>"transaction_history.type": "debit"\<close> and
  \<^verbatim>\<open>"transaction_history.reason": { $regex: /number|purchase|bought/i }\<close>.
\<close>

definition is_number_purchase :: "transaction \<Rightarrow> bool" where
  "is_number_purchase t \<longleftrightarrow>
     tx_type t = js ''debit'' \<and> regex_search_i number_purchase_bought (reason t)"

text \<open>
  \<^verbatim>\<open>aggregate([{ $unwind: "$transaction_history" }, { $match: ... }, { $count: "count" }])\<close>:
  \<open>$unwind\<close> yields one document per history entry, users in their order and each
  user's entries in theirs; \<open>$count\<close> yields no document when nothing is left to count.
\<close>

definition unwind :: "document list \<Rightarrow> transaction list" where
  "unwind ds = concat (map transaction_history ds)"

definition count_stage :: "'a list \<Rightarrow> nat list" where
  "count_stage xs = (if xs = [] then [] else [length xs])"

definition aggregate_count ::
  "store \<Rightarrow> jsstring \<Rightarrow> request \<Rightarrow> (transaction \<Rightarrow> bool) \<Rightarrow> error + nat list" where
  "aggregate_count st c rq match =
     (if faults st c rq then Inl DriverError
      else Inr (count_stage (filter match (unwind (colls st c)))))"

text \<open>\<open>result.length > 0 ? result[0].count : 0\<close>, and the same for the balance.\<close>

definition first_or :: "'a \<Rightarrow> 'a list \<Rightarrow> 'a" where
  "first_or d xs = (case xs of [] \<Rightarrow> d | x # _ \<Rightarrow> x)"

section \<open>Metrics aggregator\<close>

record bot_stats =
  totalUsers :: nat
  todaysUsers :: nat
  totalBalance :: jsnum
  todaysTransactions :: nat
  totalTransactions :: nat
  todaysNumbersSold :: nat
  totalNumbersSold :: nat

definition all_zero :: bot_stats where
  "all_zero = \<lparr> totalUsers = 0, todaysUsers = 0, totalBalance = Fin 0, todaysTransactions = 0,
     totalTransactions = 0, todaysNumbersSold = 0, totalNumbersSold = 0 \<rparr>"

text \<open>\<open>process.env.MONGODB_COLLECTION || 'users'\<close>\<close>

definition users_collection_name :: "environment \<Rightarrow> jsstring" where
  "users_collection_name env =
     (case MONGODB_COLLECTION env of None \<Rightarrow> js ''users'' | Some n \<Rightarrow> if n = [] then js ''users'' else n)"

text \<open>The \<open>try\<close> block of \<open>getBotStats\<close>.\<close>

definition getBotStats_try :: "environment \<Rightarrow> store \<Rightarrow> error + bot_stats" where
  "getBotStats_try env st =
     await (getCollection st (users_collection_name env)) (\<lambda>usersCollection.
     await (countDocuments st usersCollection) (\<lambda>totalUsers'.
     await (countDocuments_created_since st usersCollection (today env)) (\<lambda>todaysUsers'.
     await (aggregate_totalBalance st usersCollection) (\<lambda>balanceResult.
     await (aggregate_count st usersCollection AggRecentTransactions
              (\<lambda>t. since (yesterday env) (tx_created_at t))) (\<lambda>recentTransactions.
     await (aggregate_count st usersCollection AggNumberPurchases is_number_purchase)
       (\<lambda>numberPurchases.
     await (aggregate_count st usersCollection AggTodaysNumberPurchases
              (\<lambda>t. is_number_purchase t \<and> since (yesterday env) (tx_created_at t)))
       (\<lambda>todaysNumberPurchases.
     Inr \<lparr> totalUsers = totalUsers',
           todaysUsers = todaysUsers',
           totalBalance =
             parseFloat (toFixed2 (number_toString env) (first_or (Fin 0) balanceResult)),
           todaysTransactions = first_or 0 recentTransactions,
           totalTransactions = 0,
           todaysNumbersSold = first_or 0 todaysNumberPurchases,
           totalNumbersSold = first_or 0 numberPurchases \<rparr>)))))))"

text \<open>\<open>getBotStats\<close>: the \<open>catch\<close> logs the error and returns the all-zero object.\<close>

definition getBotStats :: "environment \<Rightarrow> store \<Rightarrow> error + bot_stats" where
  "getBotStats env st = try_catch (getBotStats_try env st) (\<lambda>error. Inr all_zero)"

section \<open>Dashboard snapshot\<close>

text \<open>
  \<^verbatim>\<open>find({}).sort({ users: -1 }).limit(3)\<close>.  The server orders a missing field below
  every number, \<open>NaN\<close> below the other numbers; the order among equal keys is not
  specified by the server and is taken to be the stored one.
\<close>

fun users_rank :: "jsnum option \<Rightarrow> nat \<times> rat" where
  "users_rank None = (0, 0)"
| "users_rank (Some NaN) = (1, 0)"
| "users_rank (Some NInf) = (2, 0)"
| "users_rank (Some (Fin r)) = (3, r)"
| "users_rank (Some PInf) = (4, 0)"

definition rank_le :: "nat \<times> rat \<Rightarrow> nat \<times> rat \<Rightarrow> bool" where
  "rank_le a b \<longleftrightarrow> fst a < fst b \<or> (fst a = fst b \<and> snd a \<le> snd b)"

fun insert_desc :: "document \<Rightarrow> document list \<Rightarrow> document list" where
  "insert_desc d [] = [d]"
| "insert_desc d (x # xs) =
     (if rank_le (users_rank (users x)) (users_rank (users d)) then d # x # xs
      else x # insert_desc d xs)"

definition find_top_by_users :: "store \<Rightarrow> jsstring \<Rightarrow> nat \<Rightarrow> error + document list" where
  "find_top_by_users st c n =
     (if faults st c FindTopByUsers then Inl DriverError
      else Inr (take n (foldr insert_desc (colls st c) [])))"

record dashboard =
  dash_todaysEarnings :: jsstring
  dash_totalEarnings :: jsstring
  dash_todaysUsers :: nat
  dash_totalUsers :: nat
  dash_todaysSold :: nat
  dash_totalSold :: nat
  dash_topServices :: "document list"
  dash_serverCount :: nat
  dash_serviceCount :: nat
  dash_createdAt :: int
  dash_updatedAt :: int

text \<open>The \<open>try\<close> block of \<open>getDashboardData\<close>.\<close>

definition getDashboardData_try :: "environment \<Rightarrow> store \<Rightarrow> error + dashboard" where
  "getDashboardData_try env st =
     await (getBotStats env st) (\<lambda>botStats.
     await (getCollection st (js ''services'')) (\<lambda>servicesCollection.
     await (getCollection st (js ''servers'')) (\<lambda>serversCollection.
     await (find_top_by_users st servicesCollection 3) (\<lambda>topServices.
     await (countDocuments st serversCollection) (\<lambda>serverCount.
     await (countDocuments st servicesCollection) (\<lambda>serviceCount.
     Inr \<lparr> dash_todaysEarnings = rupee # toFixed2 (number_toString env) (totalBalance botStats),
           dash_totalEarnings = rupee # toFixed2 (number_toString env) (totalBalance botStats),
           dash_todaysUsers = todaysUsers botStats,
           dash_totalUsers = totalUsers botStats,
           dash_todaysSold = todaysNumbersSold botStats,
           dash_totalSold = totalNumbersSold botStats,
           dash_topServices = topServices,
           dash_serverCount = serverCount,
           dash_serviceCount = serviceCount,
           dash_createdAt = now env,
           dash_updatedAt = now env \<rparr>))))))"

text \<open>The object the \<open>catch\<close> of \<open>getDashboardData\<close> returns.\<close>

definition fallback :: "environment \<Rightarrow> dashboard" where
  "fallback env =
     \<lparr> dash_todaysEarnings = rupee # js ''0'', dash_totalEarnings = rupee # js ''0'',
       dash_todaysUsers = 0, dash_totalUsers = 0, dash_todaysSold = 0, dash_totalSold = 0,
       dash_topServices = [], dash_serverCount = 0, dash_serviceCount = 0,
       dash_createdAt = now env, dash_updatedAt = now env \<rparr>"

definition getDashboardData :: "environment \<Rightarrow> store \<Rightarrow> error + dashboard" where
  "getDashboardData env st =
     try_catch (getDashboardData_try env st) (\<lambda>error. Inr (fallback env))"

section \<open>Dashboard cache updater\<close>

text \<open>\<open>str.replace(r, '')\<close>, \<open>r\<close> the rupee sign, with a string pattern removes its first occurrence.\<close>

fun replace_first :: "nat \<Rightarrow> jsstring \<Rightarrow> jsstring" where
  "replace_first p [] = []"
| "replace_first p (c # cs) = (if c = p then cs else c # replace_first p cs)"

text \<open>
  \<^verbatim>\<open>parseFloat(service.price?.replace(r, '') || 0)\<close>.  The optional chaining yields
  \<open>undefined\<close> for a missing or \<open>null\<close> price; \<open>|| 0\<close> replaces that and the empty string
  by \<open>0\<close>, which \<open>parseFloat\<close> reads as the string \<open>"0"\<close>.  Any other value that is not a
  string has no \<open>replace\<close> method, and the call throws.
\<close>

fun price_number :: "jsval \<Rightarrow> error + jsnum" where
  "price_number JUndefined = Inr (parseFloat (js ''0''))"
| "price_number JNull = Inr (parseFloat (js ''0''))"
| "price_number (JStr s) =
     (if replace_first rupee s = [] then Inr (parseFloat (js ''0''))
      else Inr (parseFloat (replace_first rupee s)))"
| "price_number v = Inl TypeError"

text \<open>\<open>service.users || 0\<close> and \<open>parseInt(...) || 0\<close>.\<close>

definition num_or_0 :: "jsnum \<Rightarrow> jsnum" where
  "num_or_0 n = (if truthy_num n then n else Fin 0)"

definition users_or_0 :: "jsnum option \<Rightarrow> jsnum" where
  "users_or_0 u = (case u of None \<Rightarrow> Fin 0 | Some n \<Rightarrow> num_or_0 n)"

text \<open>
  The two \<open>reduce\<close> calls of \<open>updateDashboardStats\<close>: the sum of the \<open>users\<close> counters,
  and \<^verbatim>\<open>sum + (price * users)\<close> over the services, from \<open>0\<close>.
\<close>

definition total_users :: "document list \<Rightarrow> jsnum" where
  "total_users services = foldl (\<lambda>sum0 service. js_add sum0 (users_or_0 (users service))) (Fin 0) services"

fun earnings_reduce :: "jsnum \<Rightarrow> document list \<Rightarrow> error + jsnum" where
  "earnings_reduce sum0 [] = Inr sum0"
| "earnings_reduce sum0 (service # rest) =
     await (price_number (price service)) (\<lambda>price'.
       earnings_reduce (js_add sum0 (js_mul price' (users_or_0 (users service)))) rest)"

definition totalEarnings :: "document list \<Rightarrow> error + jsnum" where
  "totalEarnings services = earnings_reduce (Fin 0) services"

section \<open>Driver requests that write\<close>

text \<open>
  A request that writes yields its result and the store after it.  The ObjectIds the
  driver generates during a call are the parameter \<open>gen\<close>: \<open>gen k\<close> is the \<open>k\<close>-th of
  them, in canonical form.  The server rejects an \<open>_id\<close> that the collection holds.
\<close>

definition find_all :: "store \<Rightarrow> jsstring \<Rightarrow> error + document list" where
  "find_all st c = (if faults st c FindAll then Inl DriverError else Inr (colls st c))"

definition put :: "store \<Rightarrow> jsstring \<Rightarrow> document list \<Rightarrow> store" where
  "put st c ds = st \<lparr> colls := (colls st) (c := ds) \<rparr>"

definition has_oid :: "jsstring \<Rightarrow> document list \<Rightarrow> bool" where
  "has_oid i ds = list_ex (\<lambda>d. oid d = i) ds"

record insert_result =
  insertedId :: jsstring

definition insertOne ::
  "store \<Rightarrow> jsstring \<Rightarrow> (nat \<Rightarrow> jsstring) \<Rightarrow> document \<Rightarrow> (error + insert_result) \<times> store" where
  "insertOne st c gen d =
     (if faults st c InsertOne then (Inl DriverError, st)
      else if has_oid (gen 0) (colls st c) then (Inl DuplicateKey, st)
      else (Inr \<lparr> insertedId = gen 0 \<rparr>, put st c (colls st c @ [d \<lparr> oid := gen 0 \<rparr>])))"

text \<open>\<open>insertMany\<close> is ordered: it stops at the first document the server rejects.\<close>

fun insert_each ::
  "(nat \<Rightarrow> jsstring) \<Rightarrow> nat \<Rightarrow> document list \<Rightarrow> document list \<Rightarrow> error option \<times> document list" where
  "insert_each gen k held [] = (None, held)"
| "insert_each gen k held (d # ds) =
     (if has_oid (gen k) held then (Some DuplicateKey, held)
      else insert_each gen (Suc k) (held @ [d \<lparr> oid := gen k \<rparr>]) ds)"

definition insertMany ::
  "store \<Rightarrow> jsstring \<Rightarrow> (nat \<Rightarrow> jsstring) \<Rightarrow> document list \<Rightarrow> (error + unit) \<times> store" where
  "insertMany st c gen ds =
     (if faults st c InsertMany then (Inl DriverError, st)
      else case insert_each gen 0 (colls st c) ds of
             (None, held) \<Rightarrow> (Inr (), put st c held)
           | (Some e, held) \<Rightarrow> (Inl e, put st c held))"

text \<open>\<open>deleteOne({ _id: objectId })\<close> removes the first document with that \<open>_id\<close>.\<close>

fun remove_first :: "('a \<Rightarrow> bool) \<Rightarrow> 'a list \<Rightarrow> 'a list" where
  "remove_first P [] = []"
| "remove_first P (x # xs) = (if P x then xs else x # remove_first P xs)"

record delete_result =
  deletedCount :: nat

definition deleteOne :: "store \<Rightarrow> jsstring \<Rightarrow> jsstring \<Rightarrow> (error + delete_result) \<times> store" where
  "deleteOne st c i =
     (if faults st c DeleteOne then (Inl DriverError, st)
      else if has_oid i (colls st c)
           then (Inr \<lparr> deletedCount = 1 \<rparr>, put st c (remove_first (\<lambda>d. oid d = i) (colls st c)))
           else (Inr \<lparr> deletedCount = 0 \<rparr>, st))"

text \<open>
  \<^verbatim>\<open>updateOne({ type: 'dashboard' }, { $set: upd }, { upsert: true })\<close>: the first
  document of that type gets the fields; when there is none, one is inserted with the
  type and the fields.
\<close>

fun update_first :: "('a \<Rightarrow> bool) \<Rightarrow> ('a \<Rightarrow> 'a) \<Rightarrow> 'a list \<Rightarrow> 'a list" where
  "update_first P f [] = []"
| "update_first P f (x # xs) = (if P x then f x # xs else x # update_first P f xs)"

definition is_dashboard :: "document \<Rightarrow> bool" where
  "is_dashboard d \<longleftrightarrow> doc_type d = Some (js ''dashboard'')"

definition updateOne_upsert ::
  "store \<Rightarrow> jsstring \<Rightarrow> (nat \<Rightarrow> jsstring) \<Rightarrow> (document \<Rightarrow> document) \<Rightarrow> (error + unit) \<times> store" where
  "updateOne_upsert st c gen upd =
     (if faults st c UpdateOne then (Inl DriverError, st)
      else if list_ex is_dashboard (colls st c)
           then (Inr (), put st c (update_first is_dashboard upd (colls st c)))
      else if has_oid (gen 0) (colls st c) then (Inl DuplicateKey, st)
      else (Inr (),
            put st c (colls st c @ [upd (blank \<lparr> oid := gen 0, doc_type := Some (js ''dashboard'') \<rparr>)])))"

text \<open>
  \<open>updateDashboardStats\<close>.  Its \<open>catch\<close> logs the error and throws it again.  The
  server count is read and not used; \<open>totalSold\<close> is the number of services.
\<close>

definition dashboard_fields ::
  "environment \<Rightarrow> jsnum \<Rightarrow> jsnum \<Rightarrow> nat \<Rightarrow> document \<Rightarrow> document" where
  "dashboard_fields env totalEarnings' totalUsers' totalServices d =
     d \<lparr> stat_todaysEarnings :=
           Some (case DEFAULT_TODAYS_EARNINGS env of
                   None \<Rightarrow> rupee # js ''0''
                 | Some s \<Rightarrow> if s = [] then rupee # js ''0'' else s),
         stat_totalEarnings := Some (rupee # toFixed2 (number_toString env) totalEarnings'),
         stat_todaysUsers := Some (num_or_0 (DEFAULT_TODAYS_USERS env)),
         stat_totalUsers := Some totalUsers',
         stat_todaysSold := Some (num_or_0 (DEFAULT_TODAYS_SOLD env)),
         stat_totalSold := Some (Fin (of_nat totalServices)),
         updatedAt := Some (now env) \<rparr>"

definition updateDashboardStats ::
  "environment \<Rightarrow> (nat \<Rightarrow> jsstring) \<Rightarrow> store \<Rightarrow> (error + bool) \<times> store" where
  "updateDashboardStats env gen st =
     (case await (getCollection st (js ''services'')) (\<lambda>servicesCollection.
           await (getCollection st (js ''servers'')) (\<lambda>serversCollection.
           await (getCollection st (js ''stats'')) (\<lambda>statsCollection.
           await (countDocuments st servicesCollection) (\<lambda>totalServices.
           await (countDocuments st serversCollection) (\<lambda>totalServers.
           await (find_all st servicesCollection) (\<lambda>services.
           await (totalEarnings services) (\<lambda>totalEarnings'.
           Inr (statsCollection,
                dashboard_fields env totalEarnings' (total_users services) totalServices))))))))
      of Inl e \<Rightarrow> (Inl e, st)
       | Inr (statsCollection, upd) \<Rightarrow>
           (case updateOne_upsert st statsCollection gen upd of
              (Inl e, st') \<Rightarrow> (Inl e, st')
            | (Inr u, st') \<Rightarrow> (Inr True, st')))"

section \<open>Record store accessor: servers\<close>

text \<open>
  \<open>validateInput.objectId\<close>: a non-empty string that \<^verbatim>\<open>/^[0-9a-fA-F]{24}$/\<close> matches.
  \<open>new ObjectId(hex)\<close> reads the digits without case; it is kept in canonical form.
\<close>

definition is_hex :: "nat \<Rightarrow> bool" where
  "is_hex c \<longleftrightarrow> (48 \<le> c \<and> c \<le> 57) \<or> (97 \<le> c \<and> c \<le> 102) \<or> (65 \<le> c \<and> c \<le> 70)"

fun validateInput_objectId :: "jsval \<Rightarrow> jsstring option" where
  "validateInput_objectId (JStr s) =
     (if s = [] then None
      else if length s = 24 \<and> list_all is_hex s then Some s else None)"
| "validateInput_objectId v = None"

definition new_ObjectId :: "jsstring \<Rightarrow> jsstring" where
  "new_ObjectId hex = map lower hex"

text \<open>The body of a request to add a server: any values.\<close>

record server_data =
  sd_server_name :: jsval
  sd_country :: jsval
  sd_flag :: jsval
  sd_status :: jsval
  sd_description :: jsval

text \<open>\<open>!x\<close> on a validated field, and \<open>x || fallback\<close>.\<close>

definition falsy :: "jsstring option \<Rightarrow> bool" where
  "falsy x = (case x of None \<Rightarrow> True | Some s \<Rightarrow> s = [])"

definition or_else :: "jsstring option \<Rightarrow> jsstring \<Rightarrow> jsstring" where
  "or_else x d = (case x of None \<Rightarrow> d | Some s \<Rightarrow> if s = [] then d else s)"

text \<open>
  \<open>addServer(serverData)\<close>.  The fields are validated before the collection is asked
  for; the \<open>catch\<close> logs the error and throws it again.
\<close>

definition validatedData :: "server_data \<Rightarrow> document" where
  "validatedData serverData =
     blank \<lparr> server_name := validateInput_string (sd_server_name serverData) 100,
             country := validateInput_string (sd_country serverData) 10,
             flag := validateInput_string (sd_flag serverData) 50,
             status := Some (or_else (validateInput_string (sd_status serverData) 20) (js ''active'')),
             description := Some (or_else (validateInput_string (sd_description serverData) 500) []) \<rparr>"

definition addServer ::
  "environment \<Rightarrow> (nat \<Rightarrow> jsstring) \<Rightarrow> store \<Rightarrow> server_data \<Rightarrow> (error + insert_result) \<times> store" where
  "addServer env gen st serverData =
     (if falsy (server_name (validatedData serverData))
         \<or> falsy (country (validatedData serverData))
         \<or> falsy (flag (validatedData serverData))
      then (Inl InvalidServerData, st)
      else case getCollection st (js ''servers'') of
             Inl e \<Rightarrow> (Inl e, st)
           | Inr serversCollection \<Rightarrow>
               insertOne st serversCollection gen
                 ((validatedData serverData)
                    \<lparr> createdAt := Some (now env), updatedAt := Some (now env) \<rparr>))"

text \<open>\<open>deleteServer(id)\<close>; its \<open>catch\<close> logs the error and throws it again.\<close>

definition deleteServer :: "store \<Rightarrow> jsval \<Rightarrow> (error + delete_result) \<times> store" where
  "deleteServer st id' =
     (case validateInput_objectId id' of
        None \<Rightarrow> (Inl InvalidServerId, st)
      | Some validatedId \<Rightarrow>
          (case getCollection st (js ''servers'') of
             Inl e \<Rightarrow> (Inl e, st)
           | Inr serversCollection \<Rightarrow> deleteOne st serversCollection (new_ObjectId validatedId)))"

section \<open>Record store accessor: flags\<close>

text \<open>
  The five default flags; a flag glyph is two regional indicators, each a surrogate
  pair (\<open>0xD83C\<close>, then \<open>0xDDE6\<close> for A up to \<open>0xDDFF\<close> for Z).
\<close>

definition regional :: "nat \<Rightarrow> nat \<Rightarrow> jsstring" where
  "regional a b = [55356, 56806 + a, 55356, 56806 + b]"

definition default_flag :: "environment \<Rightarrow> jsstring \<Rightarrow> jsstring \<Rightarrow> document" where
  "default_flag env c f =
     blank \<lparr> country := Some c, flag := Some f,
             createdAt := Some (now env), updatedAt := Some (now env) \<rparr>"

definition defaultFlags :: "environment \<Rightarrow> document list" where
  "defaultFlags env =
     [default_flag env (js ''India'') (regional 8 13),
      default_flag env (js ''USA'') (regional 20 18),
      default_flag env (js ''UK'') (regional 6 1),
      default_flag env (js ''Canada'') (regional 2 0),
      default_flag env (js ''Australia'') (regional 0 20)]"

text \<open>
  \<^verbatim>\<open>flags.forEach(flag => { flagsObject[flag.country] = flag.flag; })\<close>.  The object is a
  map from property names to values (\<open>None\<close> as a value is \<open>undefined\<close>).  A missing
  \<open>country\<close> is the property name \<open>undefined\<close>; an assignment to \<open>__proto__\<close> of a value
  that is not an object leaves an object as it is.
\<close>

definition property_key :: "jsstring option \<Rightarrow> jsstring" where
  "property_key k = (case k of None \<Rightarrow> js ''undefined'' | Some s \<Rightarrow> s)"

definition assign ::
  "(jsstring \<rightharpoonup> jsstring option) \<Rightarrow> jsstring \<Rightarrow> jsstring option \<Rightarrow> (jsstring \<rightharpoonup> jsstring option)" where
  "assign obj k v = (if k = js ''__proto__'' then obj else obj (k \<mapsto> v))"

definition flagsObject :: "document list \<Rightarrow> (jsstring \<rightharpoonup> jsstring option)" where
  "flagsObject flags = foldl (\<lambda>obj f. assign obj (property_key (country f)) (flag f)) Map.empty flags"

text \<open>\<open>getFlags()\<close>; its \<open>catch\<close> logs the error and throws it again.\<close>

definition getFlags ::
  "environment \<Rightarrow> (nat \<Rightarrow> jsstring) \<Rightarrow> store \<Rightarrow> (error + (jsstring \<rightharpoonup> jsstring option)) \<times> store" where
  "getFlags env gen st =
     (case getCollection st (js ''flags'') of
        Inl e \<Rightarrow> (Inl e, st)
      | Inr flagsCollection \<Rightarrow>
          (case find_all st flagsCollection of
             Inl e \<Rightarrow> (Inl e, st)
           | Inr flags \<Rightarrow>
               if length flags = 0 then
                 (case insertMany st flagsCollection gen (defaultFlags env) of
                    (Inl e, st') \<Rightarrow> (Inl e, st')
                  | (Inr u, st') \<Rightarrow> (Inr (flagsObject (defaultFlags env)), st'))
               else (Inr (flagsObject flags), st)))"

section \<open>Sync status reporter\<close>

text \<open>
  \<open>connectToDatabase()\<close> opens a client of its own.
  \<^verbatim>\<open>findOne({}, { sort: { last_sync: -1 }, projection: { last_sync: 1 } })\<close> yields the
  first document with the greatest \<open>last_sync\<close> (a missing one is below every date), or
  \<open>null\<close> for an empty collection.
\<close>

definition connectToDatabase :: "store \<Rightarrow> error + unit" where
  "connectToDatabase st = (if reachable st then Inr () else Inl DriverError)"

definition older :: "int option \<Rightarrow> int option \<Rightarrow> bool" where
  "older a b = (case b of None \<Rightarrow> False | Some y \<Rightarrow> (case a of None \<Rightarrow> True | Some x \<Rightarrow> x < y))"

fun newest :: "document \<Rightarrow> document list \<Rightarrow> document" where
  "newest best [] = best"
| "newest best (d # ds) = newest (if older (last_sync best) (last_sync d) then d else best) ds"

definition findOne_last_sync :: "store \<Rightarrow> jsstring \<Rightarrow> error + document option" where
  "findOne_last_sync st c =
     (if faults st c FindLastSync then Inl DriverError
      else Inr (case colls st c of [] \<Rightarrow> None | d # ds \<Rightarrow> Some (newest d ds)))"

text \<open>\<open>doc?.last_sync || null\<close>\<close>

definition last_sync_or_null :: "document option \<Rightarrow> int option" where
  "last_sync_or_null r = (case r of None \<Rightarrow> None | Some d \<Rightarrow> last_sync d)"

record kind_status =
  bot :: nat
  website :: nat
  synced :: bool
  kind_last_sync :: "int option"

record sync_data =
  users_status :: kind_status
  services_status :: kind_status
  servers_status :: kind_status
  overall_sync :: bool
  timestamp :: int

record sync_response =
  success :: bool
  error_message :: "error option"
  data :: "sync_data option"

text \<open>
  The \<open>try\<close> block of \<open>getSyncStatus\<close>.  The six counts are awaited together with
  \<open>Promise.all\<close>, which fulfils with all the counts or rejects when one of them does.
  Closing the client in the \<open>finally\<close> block is taken to succeed.
\<close>

definition getSyncStatus_try :: "environment \<Rightarrow> store \<Rightarrow> error + sync_data" where
  "getSyncStatus_try env st =
     await (connectToDatabase st) (\<lambda>db.
     let botUsersCollection = users_collection_name env;
         botServicesCollection = js ''services'';
         botServersCollection = js ''servers'';
         websiteUsersCollection = js ''website_users'';
         websiteServicesCollection = js ''services'';
         websiteServersCollection = js ''servers''
     in
     await (countDocuments st botUsersCollection) (\<lambda>botUsersCount.
     await (countDocuments st botServicesCollection) (\<lambda>botServicesCount.
     await (countDocuments st botServersCollection) (\<lambda>botServersCount.
     await (countDocuments st websiteUsersCollection) (\<lambda>websiteUsersCount.
     await (countDocuments st websiteServicesCollection) (\<lambda>websiteServicesCount.
     await (countDocuments st websiteServersCollection) (\<lambda>websiteServersCount.
     let usersSynced = (botUsersCount = websiteUsersCount);
         servicesSynced = (botServicesCount = websiteServicesCount);
         serversSynced = (botServersCount = websiteServersCount)
     in
     await (findOne_last_sync st websiteUsersCollection) (\<lambda>lastUserSync.
     await (findOne_last_sync st websiteServicesCollection) (\<lambda>lastServiceSync.
     await (findOne_last_sync st websiteServersCollection) (\<lambda>lastServerSync.
     Inr \<lparr> users_status =
             \<lparr> bot = botUsersCount, website = websiteUsersCount, synced = usersSynced,
               kind_last_sync = last_sync_or_null lastUserSync \<rparr>,
           services_status =
             \<lparr> bot = botServicesCount, website = websiteServicesCount, synced = servicesSynced,
               kind_last_sync = last_sync_or_null lastServiceSync \<rparr>,
           servers_status =
             \<lparr> bot = botServersCount, website = websiteServersCount, synced = serversSynced,
               kind_last_sync = last_sync_or_null lastServerSync \<rparr>,
           overall_sync = (usersSynced \<and> servicesSynced \<and> serversSynced),
           timestamp = now env \<rparr>))))))))))"

text \<open>\<open>getSyncStatus()\<close>: the \<open>catch\<close> returns the failure object.\<close>

definition getSyncStatus :: "environment \<Rightarrow> store \<Rightarrow> sync_response" where
  "getSyncStatus env st =
     (case getSyncStatus_try env st of
        Inl e \<Rightarrow> \<lparr> success = False, error_message = Some e, data = None \<rparr>
      | Inr d \<Rightarrow> \<lparr> success = True, error_message = None, data = Some d \<rparr>)"

section \<open>Notions the properties are stated with\<close>

text \<open>
  Some read of \<open>getBotStats\<close> fails on this store: the connection was never established,
  the name of the users collection is rejected, or the driver rejects one of the six
  requests.
\<close>

definition users_read_fails :: "environment \<Rightarrow> store \<Rightarrow> bool" where
  "users_read_fails env st \<longleftrightarrow>
     \<not> db_connected st
     \<or> falsy (validateInput_string (JStr (users_collection_name env)) 50)
     \<or> faults st (users_collection_name env) CountDocuments
     \<or> faults st (users_collection_name env) CountCreatedSince
     \<or> faults st (users_collection_name env) AggTotalBalance
     \<or> faults st (users_collection_name env) AggRecentTransactions
     \<or> faults st (users_collection_name env) AggNumberPurchases
     \<or> faults st (users_collection_name env) AggTodaysNumberPurchases"

text \<open>
  Some read that \<open>getDashboardData\<close> makes itself fails: the connection was never
  established, or the driver rejects one of its three requests.
\<close>

definition snapshot_read_fails :: "store \<Rightarrow> bool" where
  "snapshot_read_fails st \<longleftrightarrow>
     \<not> db_connected st
     \<or> faults st (js ''services'') FindTopByUsers
     \<or> faults st (js ''servers'') CountDocuments
     \<or> faults st (js ''services'') CountDocuments"

text \<open>
  The words of the specification: the reason contains the literal as a substring, letters
  compared without case.
\<close>

definition contains_ci :: "jsstring \<Rightarrow> jsstring \<Rightarrow> bool" where
  "contains_ci lit s \<longleftrightarrow> (\<exists>pre post. map lower s = pre @ map lower lit @ post)"

text \<open>
  An ObjectId as the driver generates and prints it: 24 digits, letters in lower case.
\<close>

definition canonical_oid :: "jsstring \<Rightarrow> bool" where
  "canonical_oid i \<longleftrightarrow> length i = 24 \<and> list_all (\<lambda>c. (48 \<le> c \<and> c \<le> 57) \<or> (97 \<le> c \<and> c \<le> 102)) i"

section \<open>Example inputs\<close>

text \<open>
  A process with no environment variable set, and stores whose driver accepts every
  request.
\<close>

definition env0 :: environment where
  "env0 = \<lparr> MONGODB_COLLECTION = None, DEFAULT_TODAYS_EARNINGS = None,
            DEFAULT_TODAYS_USERS = NaN, DEFAULT_TODAYS_SOLD = NaN,
            number_toString = (\<lambda>r. []), now = 1000, today = 400, yesterday = 100 \<rparr>"

definition store_of :: "(jsstring \<Rightarrow> document list) \<Rightarrow> store" where
  "store_of cs = \<lparr> db_connected = True, reachable = True, colls = cs, faults = (\<lambda>c r. False) \<rparr>"

definition users5_website4 :: store where
  "users5_website4 =
     store_of (\<lambda>c. if c = js ''users'' then replicate 5 blank
                    else if c = js ''website_users'' then replicate 4 blank else [])"

definition users5_website5 :: store where
  "users5_website5 =
     store_of (\<lambda>c. if c = js ''users'' then replicate 5 blank
                    else if c = js ''website_users'' then replicate 5 blank else [])"

text \<open>A store never connected, and one whose driver rejects the purchase count.\<close>

definition never_connected :: store where
  "never_connected = (store_of (\<lambda>c. replicate 3 blank)) \<lparr> db_connected := False \<rparr>"

definition purchases_rejected :: store where
  "purchases_rejected =
     (store_of (\<lambda>c. replicate 3 blank))
       \<lparr> faults := (\<lambda>c r. c = js ''users'' \<and> r = AggNumberPurchases) \<rparr>"

text \<open>Three users and one service with 7 users; the driver rejects the balance sum.\<close>

definition balance_rejected :: store where
  "balance_rejected =
     (store_of (\<lambda>c. if c = js ''users'' then replicate 3 blank
                     else if c = js ''services'' then [blank \<lparr> users := Some (Fin 7) \<rparr>]
                     else []))
       \<lparr> faults := (\<lambda>c r. c = js ''users'' \<and> r = AggTotalBalance) \<rparr>"

text \<open>
  Two users: one bought a number and was refunded, the other bought one and withdrew.
\<close>

definition two_buyers :: store where
  "two_buyers =
     store_of (\<lambda>c. if c = js ''users'' then
        [blank \<lparr> transaction_history :=
            [\<lparr> tx_type = js ''debit'', reason = js ''Number purchase'', tx_created_at = Some 50 \<rparr>,
             \<lparr> tx_type = js ''credit'', reason = js ''Number refund'', tx_created_at = Some 60 \<rparr>] \<rparr>,
         blank \<lparr> transaction_history :=
            [\<lparr> tx_type = js ''debit'', reason = js ''BOUGHT otp'', tx_created_at = Some 200 \<rparr>,
             \<lparr> tx_type = js ''debit'', reason = js ''withdrawal'', tx_created_at = None \<rparr>] \<rparr>]
        else [])"

text \<open>
  A driver whose \<open>k\<close>-th generated ObjectId is \<open>00000000000000000000000k\<close>, a store with
  one flag, and a store with no document at all.
\<close>

definition gen0 :: "nat \<Rightarrow> jsstring" where
  "gen0 k = replicate 23 48 @ [48 + k]"

definition one_flag :: store where
  "one_flag =
     store_of (\<lambda>c. if c = js ''flags''
                    then [blank \<lparr> oid := replicate 24 97, country := Some (js ''India''),
                                   flag := Some (regional 8 13) \<rparr>]
                    else [])"

definition empty_store :: store where
  "empty_store = store_of (\<lambda>c. [])"

text \<open>
  Two request bodies: a server in Mumbai, and one whose name consists of markup
  characters only.
\<close>

definition mumbai :: server_data where
  "mumbai = \<lparr> sd_server_name = JStr (js ''Mumbai 1''), sd_country = JStr (js ''IN''),
               sd_flag = JStr (regional 8 13), sd_status = JUndefined,
               sd_description = JUndefined \<rparr>"

definition markup_name :: server_data where
  "markup_name = \<lparr> sd_server_name = JStr (js ''<>''), sd_country = JStr (js ''IN''),
                    sd_flag = JStr (regional 8 13), sd_status = JUndefined,
                    sd_description = JUndefined \<rparr>"

text \<open>
  Three users with the balances 10.005, 0 and -5; \<open>fl_round (10005 / 1000)\<close> is the
  double that the literal \<open>10.005\<close> denotes.
\<close>

definition three_users :: store where
  "three_users =
     store_of (\<lambda>c. if c = js ''users''
                    then [blank \<lparr> balance := Some (fl_round (10005 / 1000)) \<rparr>,
                          blank \<lparr> balance := Some (Fin 0) \<rparr>,
                          blank \<lparr> balance := Some (Fin (- 5)) \<rparr>]
                    else [])"

text \<open>
  Two services: one whose stored price is the rupee sign followed by \<open>abc\<close>, with one
  user, and one priced at 150 rupees with four users.
\<close>

definition priced_abc :: document where
  "priced_abc = blank \<lparr> price := JStr (rupee # js ''abc''), users := Some (Fin 1) \<rparr>"

definition priced_150 :: document where
  "priced_150 = blank \<lparr> price := JStr (rupee # js ''150''), users := Some (Fin 4) \<rparr>"

definition malformed_price :: store where
  "malformed_price = store_of (\<lambda>c. if c = js ''services'' then [priced_abc, priced_150] else [])"

section \<open>Properties of the validation utility\<close>

lemma replace_class_g_filter: "replace_class_g cls s = filter (\<lambda>c. c \<notin> set cls) s"
  by (induction s) auto

lemma dangerous_chars: "set dangerous = of_char ` {CHR ''<'', CHR ''>'', CHR 0x22, CHR 0x27, CHR ''&''}"
  by (simp add: dangerous_def)

text \<open>
  Claim C9.  \<open>validateInput.string\<close> is a total function with no failing branch: on every
  value that is not a string it returns \<open>null\<close>; on every string longer than \<open>maxLength\<close>
  it returns \<open>null\<close>; on every other string it returns the input without the code units of
  \<^verbatim>\<open>< > " ' &\<close> (60, 62, 34, 39, 38), all other code units kept in their order.
\<close>

theorem validateInput_string_total:
  "((\<forall>s. v \<noteq> JStr s) \<longrightarrow> validateInput_string v maxLength = None)
   \<and> (length s > maxLength \<longrightarrow> validateInput_string (JStr s) maxLength = None)
   \<and> (length s \<le> maxLength \<longrightarrow>
        validateInput_string (JStr s) maxLength
          = Some (filter (\<lambda>c. c \<notin> {60, 62, 34, 39, 38}) s))"
proof (intro conjI impI)
  assume "\<forall>s. v \<noteq> JStr s"
  then show "validateInput_string v maxLength = None"
    by (cases v) simp_all
next
  assume "length s > maxLength"
  then show "validateInput_string (JStr s) maxLength = None"
    by simp
next
  assume "length s \<le> maxLength"
  then show "validateInput_string (JStr s) maxLength
      = Some (filter (\<lambda>c. c \<notin> {60, 62, 34, 39, 38}) s)"
    by (simp add: replace_class_g_filter dangerous_def)
qed

theorem validateInput_string_total_witness:
  "validateInput_string (JNum (Fin 5)) 3 = None
   \<and> validateInput_string (JStr (js ''abcd'')) 3 = None
   \<and> validateInput_string (JStr (js ''a<b>&c'')) 100 = Some (js ''abc'')"
  using validateInput_string_total [of "JNum (Fin 5)" 3 "js ''abcd''"]
    validateInput_string_total [of JNull 100 "js ''a<b>&c''"]
  by simp

section \<open>Asynchronous results: helper facts\<close>

lemma await_Inr_iff: "await m f = Inr y \<longleftrightarrow> (\<exists>v. m = Inr v \<and> f v = Inr y)"
  by (cases m) auto

lemma await_Inl_iff: "await m f = Inl e \<longleftrightarrow> m = Inl e \<or> (\<exists>v. m = Inr v \<and> f v = Inl e)"
  by (cases m) auto

lemma countDocuments_Inr:
  "countDocuments st c = Inr n \<longleftrightarrow> \<not> faults st c CountDocuments \<and> n = length (colls st c)"
  by (auto simp: countDocuments_def)

section \<open>Properties of the sync status reporter\<close>

lemmas sync_eval = getSyncStatus_def getSyncStatus_try_def connectToDatabase_def
  countDocuments_def findOne_last_sync_def users_collection_name_def last_sync_or_null_def
  env0_def store_of_def Let_def

text \<open>
  Claim C3.  In every report that \<open>getSyncStatus\<close> produces, whatever the store holds,
  the services kind and the servers kind are reported as synced: for each of the two,
  the bot count and the website count are counts of the same collection, so they are
  equal.
\<close>

theorem sync_same_collection:
  "data (getSyncStatus env st) = Some d \<Longrightarrow>
     synced (services_status d) \<and> synced (servers_status d)
     \<and> bot (services_status d) = website (services_status d)
     \<and> bot (servers_status d) = website (servers_status d)"
  by (auto simp: getSyncStatus_def getSyncStatus_try_def await_Inr_iff countDocuments_Inr Let_def
           split: sum.splits)

theorem sync_same_collection_witness:
  "\<exists>d. data (getSyncStatus env0 users5_website4) = Some d
       \<and> synced (services_status d) \<and> synced (servers_status d)
       \<and> \<not> synced (users_status d)"
proof -
  obtain d where d: "data (getSyncStatus env0 users5_website4) = Some d"
    by (simp add: sync_eval users5_website4_def)
  have "\<not> synced (users_status d)"
    using d by (auto simp add: sync_eval users5_website4_def)
  with sync_same_collection [OF d] d show ?thesis by blast
qed

text \<open>
  Claim C4.  In every report, the two counts of a kind are the numbers of documents of
  its two collections, a kind is synced exactly when its two counts are equal, and the
  overall status is the conjunction of the three flags.  With 5 and 5 users the users
  kind is synced; with 5 and 4 it is not, and neither is the whole.
\<close>

theorem sync_count_equality:
  "data (getSyncStatus env st) = Some d \<Longrightarrow>
     bot (users_status d) = length (colls st (users_collection_name env))
     \<and> website (users_status d) = length (colls st (js ''website_users''))
     \<and> bot (services_status d) = length (colls st (js ''services''))
     \<and> website (services_status d) = length (colls st (js ''services''))
     \<and> bot (servers_status d) = length (colls st (js ''servers''))
     \<and> website (servers_status d) = length (colls st (js ''servers''))
     \<and> (synced (users_status d) \<longleftrightarrow> bot (users_status d) = website (users_status d))
     \<and> (synced (services_status d) \<longleftrightarrow> bot (services_status d) = website (services_status d))
     \<and> (synced (servers_status d) \<longleftrightarrow> bot (servers_status d) = website (servers_status d))
     \<and> (overall_sync d \<longleftrightarrow>
          synced (users_status d) \<and> synced (services_status d) \<and> synced (servers_status d))"
  by (auto simp: getSyncStatus_def getSyncStatus_try_def await_Inr_iff countDocuments_Inr Let_def
           split: sum.splits)

theorem sync_count_equality_witness:
  "(\<exists>d. data (getSyncStatus env0 users5_website5) = Some d
        \<and> bot (users_status d) = 5 \<and> website (users_status d) = 5
        \<and> synced (users_status d) \<and> overall_sync d)
   \<and> (\<exists>d. data (getSyncStatus env0 users5_website4) = Some d
        \<and> bot (users_status d) = 5 \<and> website (users_status d) = 4
        \<and> \<not> synced (users_status d) \<and> \<not> overall_sync d)"
proof -
  obtain d where d: "data (getSyncStatus env0 users5_website5) = Some d"
    by (simp add: sync_eval users5_website5_def)
  obtain d' where d': "data (getSyncStatus env0 users5_website4) = Some d'"
    by (simp add: sync_eval users5_website4_def)
  have u: "users_collection_name env0 = js ''users''"
    by (simp add: users_collection_name_def env0_def)
  from sync_count_equality [OF d] u
  have "bot (users_status d) = 5 \<and> website (users_status d) = 5
        \<and> synced (users_status d) \<and> overall_sync d"
    by (simp add: users5_website5_def store_of_def)
  moreover from sync_count_equality [OF d'] u
  have "bot (users_status d') = 5 \<and> website (users_status d') = 4
        \<and> \<not> synced (users_status d') \<and> \<not> overall_sync d'"
    by (simp add: users5_website4_def store_of_def)
  ultimately show ?thesis using d d' by blast
qed

section \<open>Properties of the metrics aggregator\<close>

lemma getCollection_Inr:
  "getCollection st c = Inr h \<longleftrightarrow>
     db_connected st \<and> \<not> falsy (validateInput_string (JStr c) 50) \<and> h = c"
  by (auto simp: getCollection_def falsy_def split: option.splits)

lemma getCollection_fails:
  "(\<exists>e. getCollection st c = Inl e) \<longleftrightarrow>
     \<not> db_connected st \<or> falsy (validateInput_string (JStr c) 50)"
  by (auto simp: getCollection_def falsy_def split: option.splits)

lemma getBotStats_try_fails:
  "(\<exists>e. getBotStats_try env st = Inl e) \<longleftrightarrow> users_read_fails env st"
proof (cases "getCollection st (users_collection_name env)")
  case (Inl e)
  then have "getBotStats_try env st = Inl e"
    by (simp add: getBotStats_try_def)
  moreover from Inl have "users_read_fails env st"
    using getCollection_fails [of st "users_collection_name env"]
    by (auto simp: users_read_fails_def)
  ultimately show ?thesis by blast
next
  case (Inr h)
  then have h: "db_connected st"
    "\<not> falsy (validateInput_string (JStr (users_collection_name env)) 50)"
    "h = users_collection_name env"
    by (simp_all add: getCollection_Inr)
  show ?thesis
    unfolding getBotStats_try_def users_read_fails_def Inr
    using h
    by (simp add: countDocuments_def countDocuments_created_since_def
        aggregate_totalBalance_def aggregate_count_def)
qed

text \<open>
  Claim C2.  \<open>getBotStats\<close> is fail-soft.  When a read it depends on fails (the
  connection was never established, the collection name is rejected, or the driver
  rejects any one of its six requests), it fulfils with the all-zero object; it fulfils
  on every store, so no error reaches the caller; and it is the complete result of its
  \<open>try\<close> block whenever no read fails, so a result is never partial.
\<close>

theorem getBotStats_fail_soft:
  "(users_read_fails env st \<longrightarrow> getBotStats env st = Inr all_zero)
   \<and> (\<not> db_connected st \<longrightarrow> getBotStats env st = Inr all_zero)
   \<and> (\<exists>s. getBotStats env st = Inr s)
   \<and> (\<not> users_read_fails env st \<longrightarrow> getBotStats env st = getBotStats_try env st)"
proof -
  have a: "getBotStats env st = Inr all_zero" if "users_read_fails env st"
  proof -
    from that obtain e where "getBotStats_try env st = Inl e"
      using getBotStats_try_fails by blast
    then show ?thesis by (simp add: getBotStats_def)
  qed
  have b: "getBotStats env st = getBotStats_try env st" if "\<not> users_read_fails env st"
  proof (cases "getBotStats_try env st")
    case (Inl e)
    with that show ?thesis using getBotStats_try_fails by blast
  next
    case (Inr s)
    then show ?thesis by (simp add: getBotStats_def)
  qed
  have c: "\<exists>s. getBotStats env st = Inr s"
    by (cases "getBotStats_try env st") (simp_all add: getBotStats_def)
  have d: "users_read_fails env st" if "\<not> db_connected st"
    using that by (simp add: users_read_fails_def)
  from a b c d show ?thesis by blast
qed

theorem getBotStats_fail_soft_witness:
  "users_read_fails env0 never_connected \<and> getBotStats env0 never_connected = Inr all_zero
   \<and> users_read_fails env0 purchases_rejected \<and> getBotStats env0 purchases_rejected = Inr all_zero
   \<and> totalUsers all_zero = 0 \<and> totalBalance all_zero = Fin 0
   \<and> \<not> users_read_fails env0 users5_website4
   \<and> getBotStats env0 users5_website4 = getBotStats_try env0 users5_website4"
proof -
  have 1: "users_read_fails env0 never_connected"
    by (simp add: users_read_fails_def never_connected_def store_of_def)
  have 2: "users_read_fails env0 purchases_rejected"
    by (simp add: users_read_fails_def purchases_rejected_def store_of_def
        users_collection_name_def env0_def)
  have 3: "\<not> users_read_fails env0 users5_website4"
    by (simp add: users_read_fails_def users5_website4_def store_of_def
        users_collection_name_def env0_def falsy_def dangerous_def)
  from 1 2 3 getBotStats_fail_soft [of env0 never_connected]
    getBotStats_fail_soft [of env0 purchases_rejected]
    getBotStats_fail_soft [of env0 users5_website4]
  show ?thesis by (simp add: all_zero_def)
qed

section \<open>Evaluation of \<open>toFixed\<close>\<close>

lemma digits_of_small: "n < 10 \<Longrightarrow> digits_of n = [48 + n]"
  by (simp add: digits_of.simps)

lemma digits_of_big: "10 \<le> n \<Longrightarrow> digits_of n = digits_of (n div 10) @ [48 + n mod 10]"
  by (subst digits_of.simps) simp

lemma floor_rat_numeral: "\<lfloor>(numeral a / numeral b :: rat)\<rfloor> = numeral a div numeral b"
  using floor_divide_of_int_eq [of "numeral a" "numeral b", where ?'a = rat] by simp

lemmas toFixed2_eval = toFixed2_def digits_of_small digits_of_big floor_rat_numeral Let_def

lemma toFixed2_zero: "toFixed2 big (Fin 0) = js ''0.00''"
  by (simp add: toFixed2_eval)

section \<open>Properties of the dashboard snapshot\<close>

lemma getDashboardData_total: "\<exists>d. getDashboardData env st = Inr d"
  by (cases "getDashboardData_try env st") (simp_all add: getDashboardData_def)

lemma getDashboardData_try_zero:
  assumes "getBotStats_try env st = Inl e"
  shows "getDashboardData_try env st =
     (if snapshot_read_fails st then
        (if \<not> db_connected st then Inl NotConnected else Inl DriverError)
      else Inr \<lparr> dash_todaysEarnings = rupee # js ''0.00'',
                 dash_totalEarnings = rupee # js ''0.00'',
                 dash_todaysUsers = 0, dash_totalUsers = 0, dash_todaysSold = 0, dash_totalSold = 0,
                 dash_topServices = take 3 (foldr insert_desc (colls st (js ''services'')) []),
                 dash_serverCount = length (colls st (js ''servers'')),
                 dash_serviceCount = length (colls st (js ''services'')),
                 dash_createdAt = now env, dash_updatedAt = now env \<rparr>)"
proof -
  from assms have "getBotStats env st = Inr all_zero"
    by (simp add: getBotStats_def)
  then show ?thesis
    by (simp add: getDashboardData_try_def getCollection_def dangerous_def
        snapshot_read_fails_def find_top_by_users_def countDocuments_def all_zero_def
        toFixed2_zero)
qed

text \<open>
  Claim C5, as amended.  \<open>getDashboardData\<close> fulfils on every store.  When the \<open>try\<close>
  block of \<open>getBotStats\<close> fails, the snapshot carries the all-zero metrics; it is the
  fallback object, with the empty list of top services and the zero counts, when a read
  of \<open>getDashboardData\<close> itself fails as well (as on a connection never established),
  and otherwise its top services and its counts are those read from the store.
\<close>

theorem getDashboardData_degrades:
  "(\<exists>d. getDashboardData env st = Inr d)
   \<and> (getBotStats_try env st = Inl e \<and> snapshot_read_fails st \<longrightarrow>
        getDashboardData env st = Inr (fallback env))
   \<and> (getBotStats_try env st = Inl e \<and> \<not> snapshot_read_fails st \<longrightarrow>
        getDashboardData env st =
          Inr \<lparr> dash_todaysEarnings = rupee # js ''0.00'',
                dash_totalEarnings = rupee # js ''0.00'',
                dash_todaysUsers = 0, dash_totalUsers = 0, dash_todaysSold = 0, dash_totalSold = 0,
                dash_topServices = take 3 (foldr insert_desc (colls st (js ''services'')) []),
                dash_serverCount = length (colls st (js ''servers'')),
                dash_serviceCount = length (colls st (js ''services'')),
                dash_createdAt = now env, dash_updatedAt = now env \<rparr>)"
  using getDashboardData_total [of env st]
  by (auto simp: getDashboardData_def getDashboardData_try_zero)

lemma balance_rejected_try: "getBotStats_try env0 balance_rejected = Inl DriverError"
  by (simp add: getBotStats_try_def balance_rejected_def store_of_def env0_def
      users_collection_name_def getCollection_def dangerous_def countDocuments_def
      countDocuments_created_since_def aggregate_totalBalance_def)

theorem getDashboardData_degrades_witness:
  "getBotStats_try env0 balance_rejected = Inl DriverError
   \<and> \<not> snapshot_read_fails balance_rejected
   \<and> dash_totalUsers (projr (getDashboardData env0 balance_rejected)) = 0
   \<and> dash_serviceCount (projr (getDashboardData env0 balance_rejected)) = 1
   \<and> getBotStats_try env0 never_connected = Inl NotConnected
   \<and> snapshot_read_fails never_connected
   \<and> getDashboardData env0 never_connected = Inr (fallback env0)"
proof -
  have 1: "\<not> snapshot_read_fails balance_rejected"
    by (simp add: snapshot_read_fails_def balance_rejected_def store_of_def)
  have 2: "getBotStats_try env0 never_connected = Inl NotConnected"
    by (simp add: getBotStats_try_def never_connected_def store_of_def getCollection_def)
  have 3: "snapshot_read_fails never_connected"
    by (simp add: snapshot_read_fails_def never_connected_def store_of_def)
  from balance_rejected_try 1 2 3
    getDashboardData_degrades [of env0 balance_rejected DriverError]
    getDashboardData_degrades [of env0 never_connected NotConnected]
  show ?thesis by (simp add: balance_rejected_def store_of_def)
qed

text \<open>
  Claim C5 as stated fails: with three users, one service, and a driver that rejects
  only the balance sum, \<open>getBotStats\<close> fails internally and the snapshot still lists
  the service and counts it.
\<close>

theorem getDashboardData_counterexample:
  "getBotStats_try env0 balance_rejected = Inl DriverError
   \<and> getDashboardData env0 balance_rejected =
       Inr \<lparr> dash_todaysEarnings = rupee # js ''0.00'',
             dash_totalEarnings = rupee # js ''0.00'',
             dash_todaysUsers = 0, dash_totalUsers = 0, dash_todaysSold = 0, dash_totalSold = 0,
             dash_topServices = [blank \<lparr> users := Some (Fin 7) \<rparr>],
             dash_serverCount = 0,
             dash_serviceCount = 1,
             dash_createdAt = 1000, dash_updatedAt = 1000 \<rparr>
   \<and> [blank \<lparr> users := Some (Fin 7) \<rparr>] \<noteq> []"
proof -
  have "getDashboardData_try env0 balance_rejected =
      Inr \<lparr> dash_todaysEarnings = rupee # js ''0.00'',
             dash_totalEarnings = rupee # js ''0.00'',
             dash_todaysUsers = 0, dash_totalUsers = 0, dash_todaysSold = 0, dash_totalSold = 0,
             dash_topServices = [blank \<lparr> users := Some (Fin 7) \<rparr>],
             dash_serverCount = 0,
             dash_serviceCount = 1,
             dash_createdAt = 1000, dash_updatedAt = 1000 \<rparr>"
    by (simp add: getDashboardData_try_zero [OF balance_rejected_try] snapshot_read_fails_def)
       (simp add: balance_rejected_def store_of_def env0_def)
  then show ?thesis
    by (simp add: getDashboardData_def balance_rejected_try)
qed

section \<open>Properties of the purchase classification\<close>

lemma literal_at_iff: "literal_at p s \<longleftrightarrow> (\<exists>post. map lower s = map lower p @ post)"
  by (induction p s rule: literal_at.induct) auto

lemma contains_ci_Nil: "contains_ci a [] \<longleftrightarrow> literal_at a []"
  by (cases a) (simp_all add: contains_ci_def)

lemma contains_ci_Cons:
  "contains_ci a (c # cs) \<longleftrightarrow> literal_at a (c # cs) \<or> contains_ci a cs"
proof
  assume "contains_ci a (c # cs)"
  then obtain pre post where e: "lower c # map lower cs = pre @ map lower a @ post"
    by (auto simp: contains_ci_def)
  show "literal_at a (c # cs) \<or> contains_ci a cs"
  proof (cases pre)
    case Nil
    with e have "literal_at a (c # cs)"
      unfolding literal_at_iff by auto
    then show ?thesis ..
  next
    case (Cons x pre')
    with e have "map lower cs = pre' @ map lower a @ post" by simp
    then have "contains_ci a cs" unfolding contains_ci_def by blast
    then show ?thesis ..
  qed
next
  assume "literal_at a (c # cs) \<or> contains_ci a cs"
  then show "contains_ci a (c # cs)"
  proof
    assume "literal_at a (c # cs)"
    then obtain post where "map lower (c # cs) = map lower a @ post"
      unfolding literal_at_iff by blast
    then have "map lower (c # cs) = [] @ map lower a @ post" by simp
    then show ?thesis unfolding contains_ci_def by blast
  next
    assume "contains_ci a cs"
    then obtain pre post where "map lower cs = pre @ map lower a @ post"
      unfolding contains_ci_def by blast
    then have "map lower (c # cs) = (lower c # pre) @ map lower a @ post" by simp
    then show ?thesis unfolding contains_ci_def by blast
  qed
qed

lemma regex_search_i_iff: "regex_search_i alts s \<longleftrightarrow> (\<exists>a \<in> set alts. contains_ci a s)"
  by (induction s) (auto simp: list_ex_iff contains_ci_Nil contains_ci_Cons)

lemma first_or_count_stage: "first_or 0 (count_stage xs) = length xs"
  by (simp add: first_or_def count_stage_def)

lemma getBotStats_try_totalNumbersSold:
  assumes "getBotStats_try env st = Inr s"
  shows "totalNumbersSold s
           = length (filter is_number_purchase (unwind (colls st (users_collection_name env))))"
proof -
  from assms obtain c where c: "getCollection st (users_collection_name env) = Inr c"
    by (auto simp: getBotStats_try_def await_Inr_iff)
  then have "c = users_collection_name env"
    by (simp add: getCollection_Inr)
  with assms c show ?thesis
    by (auto simp: getBotStats_try_def await_Inr_iff aggregate_count_def first_or_count_stage
        split: if_splits)
qed

lemma contains_ci_Number: "contains_ci (js ''Number'') r \<longleftrightarrow> contains_ci (js ''number'') r"
  by (simp add: contains_ci_def lower_def)

text \<open>
  Claim C6.  An entry is classified as a number purchase exactly when its type is
  \<open>debit\<close> and its reason contains, letters compared without case, one of \<open>number\<close>,
  \<open>purchase\<close>, \<open>bought\<close>.  For every reason that contains \<open>Number\<close> in any case, a
  debit entry is classified as a purchase and a credit entry with the same reason is
  not.  The count \<open>getBotStats\<close> reports is the number of entries so classified.
\<close>

theorem number_purchase_classification:
  "(is_number_purchase t \<longleftrightarrow>
      tx_type t = js ''debit''
      \<and> (contains_ci (js ''number'') (reason t) \<or> contains_ci (js ''purchase'') (reason t)
         \<or> contains_ci (js ''bought'') (reason t)))
   \<and> (contains_ci (js ''Number'') r \<longrightarrow>
        is_number_purchase \<lparr> tx_type = js ''debit'', reason = r, tx_created_at = x \<rparr>
        \<and> \<not> is_number_purchase \<lparr> tx_type = js ''credit'', reason = r, tx_created_at = x \<rparr>)
   \<and> (getBotStats_try env st = Inr s \<longrightarrow>
        totalNumbersSold s
          = length (filter is_number_purchase (unwind (colls st (users_collection_name env)))))"
proof (intro conjI impI)
  show "is_number_purchase t \<longleftrightarrow>
      tx_type t = js ''debit''
      \<and> (contains_ci (js ''number'') (reason t) \<or> contains_ci (js ''purchase'') (reason t)
         \<or> contains_ci (js ''bought'') (reason t))"
    unfolding is_number_purchase_def regex_search_i_iff number_purchase_bought_def by auto
next
  assume "contains_ci (js ''Number'') r"
  then have "contains_ci (js ''number'') r"
    by (simp only: contains_ci_Number)
  then show "is_number_purchase \<lparr> tx_type = js ''debit'', reason = r, tx_created_at = x \<rparr>"
    unfolding is_number_purchase_def regex_search_i_iff number_purchase_bought_def by simp
next
  show "\<not> is_number_purchase \<lparr> tx_type = js ''credit'', reason = r, tx_created_at = x \<rparr>"
    by (simp add: is_number_purchase_def)
next
  assume "getBotStats_try env st = Inr s"
  then show "totalNumbersSold s
      = length (filter is_number_purchase (unwind (colls st (users_collection_name env))))"
    by (rule getBotStats_try_totalNumbersSold)
qed

lemma getBotStats_try_succeeds:
  "\<not> users_read_fails env st \<Longrightarrow> \<exists>s. getBotStats_try env st = Inr s"
  using getBotStats_try_fails [of env st] by (cases "getBotStats_try env st") auto

lemma two_buyers_succeeds: "\<exists>s. getBotStats_try env0 two_buyers = Inr s"
  by (rule getBotStats_try_succeeds)
     (simp add: users_read_fails_def two_buyers_def store_of_def users_collection_name_def
        env0_def falsy_def dangerous_def)

theorem number_purchase_classification_witness:
  "contains_ci (js ''Number'') (js ''Bought a NUMBER'')
   \<and> is_number_purchase \<lparr> tx_type = js ''debit'', reason = js ''Bought a NUMBER'', tx_created_at = None \<rparr>
   \<and> \<not> is_number_purchase \<lparr> tx_type = js ''credit'', reason = js ''Bought a NUMBER'', tx_created_at = None \<rparr>
   \<and> (\<exists>s. getBotStats_try env0 two_buyers = Inr s \<and> totalNumbersSold s = 2)"
proof -
  have "regex_search_i [js ''Number''] (js ''Bought a NUMBER'')"
    by (simp add: lower_def)
  then have 1: "contains_ci (js ''Number'') (js ''Bought a NUMBER'')"
    by (simp only: regex_search_i_iff) simp
  obtain s where s: "getBotStats_try env0 two_buyers = Inr s"
    using two_buyers_succeeds by blast
  have 2: "length (filter is_number_purchase (unwind (colls two_buyers (users_collection_name env0)))) = 2"
    by (simp add: two_buyers_def store_of_def users_collection_name_def env0_def unwind_def
        is_number_purchase_def number_purchase_bought_def lower_def)
  from number_purchase_classification
    [of "\<lparr> tx_type = js ''debit'', reason = js ''Bought a NUMBER'', tx_created_at = None \<rparr>"
        "js ''Bought a NUMBER''" None env0 two_buyers s] 1 s 2
  show ?thesis by auto
qed

section \<open>Properties of the flags accessor\<close>

lemma insert_each_length:
  "insert_each gen k held ds = (None, held') \<Longrightarrow> length held' = length held + length ds"
  by (induction ds arbitrary: k held) (auto split: if_splits)

lemma colls_put: "colls (put st c ds) c = ds"
  by (simp add: put_def)

lemma getFlags_nonempty:
  assumes "colls st (js ''flags'') \<noteq> []"
  shows "getFlags env gen st =
     (if \<not> db_connected st then (Inl NotConnected, st)
      else if faults st (js ''flags'') FindAll then (Inl DriverError, st)
      else (Inr (flagsObject (colls st (js ''flags''))), st))"
  using assms by (simp add: getFlags_def getCollection_def dangerous_def find_all_def)

text \<open>
  Claim C8.  On a store whose flag collection is not empty, \<open>getFlags\<close> leaves the store
  as it is, and a second call (whatever the clock and the driver's identifiers then)
  returns the same result from the same store; with the connection up and the read
  accepted, the result is the mapping built from the stored flags.  The store changes
  only when the collection is empty, and a successful call on an empty collection
  leaves the five default flags in it, so that no later call seeds again.
\<close>

theorem getFlags_idempotent:
  "(colls st (js ''flags'') \<noteq> [] \<and> getFlags env gen st = (r, st') \<longrightarrow>
      st' = st \<and> getFlags env' gen' st' = (r, st')
      \<and> (db_connected st \<and> \<not> faults st (js ''flags'') FindAll \<longrightarrow>
           r = Inr (flagsObject (colls st (js ''flags'')))))
   \<and> (getFlags env gen st = (r, st') \<and> st' \<noteq> st \<longrightarrow> colls st (js ''flags'') = [])
   \<and> (colls st (js ''flags'') = [] \<and> getFlags env gen st = (Inr m, st'') \<longrightarrow>
        m = flagsObject (defaultFlags env) \<and> length (colls st'' (js ''flags'')) = 5)"
proof (intro conjI impI)
  assume a: "colls st (js ''flags'') \<noteq> [] \<and> getFlags env gen st = (r, st')"
  then show 1: "st' = st"
    by (auto simp: getFlags_nonempty split: if_splits)
  from a show "getFlags env' gen' st' = (r, st')"
    by (auto simp: getFlags_nonempty split: if_splits)
  assume "db_connected st \<and> \<not> faults st (js ''flags'') FindAll"
  with a show "r = Inr (flagsObject (colls st (js ''flags'')))"
    by (auto simp: getFlags_nonempty)
next
  assume "getFlags env gen st = (r, st') \<and> st' \<noteq> st"
  then show "colls st (js ''flags'') = []"
    by (cases "colls st (js ''flags'') = []") (auto simp: getFlags_nonempty split: if_splits)
next
  assume b: "colls st (js ''flags'') = [] \<and> getFlags env gen st = (Inr m, st'')"
  then show "m = flagsObject (defaultFlags env)"
    by (auto simp: getFlags_def find_all_def getCollection_Inr
        split: sum.splits if_splits prod.splits)
  from b obtain held where
    h: "insert_each gen 0 [] (defaultFlags env) = (None, held)" "st'' = put st (js ''flags'') held"
    by (auto simp: getFlags_def find_all_def getCollection_Inr insertMany_def
        split: sum.splits if_splits prod.splits option.splits)
  from insert_each_length [OF h(1)] have "length held = 5"
    by (simp add: defaultFlags_def)
  with h(2) show "length (colls st'' (js ''flags'')) = 5"
    by (simp add: colls_put)
qed

theorem getFlags_idempotent_witness:
  "colls one_flag (js ''flags'') \<noteq> []
   \<and> snd (getFlags env0 gen0 one_flag) = one_flag
   \<and> getFlags env0 gen0 (snd (getFlags env0 gen0 one_flag)) = getFlags env0 gen0 one_flag
   \<and> fst (getFlags env0 gen0 one_flag) = Inr (flagsObject (colls one_flag (js ''flags'')))
   \<and> colls empty_store (js ''flags'') = []
   \<and> length (colls (snd (getFlags env0 gen0 empty_store)) (js ''flags'')) = 5"
proof -
  have 1: "colls one_flag (js ''flags'') \<noteq> []"
    by (simp add: one_flag_def store_of_def)
  have 2: "db_connected one_flag \<and> \<not> faults one_flag (js ''flags'') FindAll"
    by (simp add: one_flag_def store_of_def)
  have 3: "colls empty_store (js ''flags'') = []"
    by (simp add: empty_store_def store_of_def)
  have 4: "fst (getFlags env0 gen0 empty_store) = Inr (flagsObject (defaultFlags env0))"
    by (simp add: getFlags_def getCollection_def dangerous_def find_all_def insertMany_def
        empty_store_def store_of_def defaultFlags_def gen0_def has_oid_def default_flag_def)
  from 1 2 3 4
    getFlags_idempotent [of one_flag env0 gen0 "fst (getFlags env0 gen0 one_flag)"
      "snd (getFlags env0 gen0 one_flag)" env0 gen0
      "flagsObject (defaultFlags env0)" "snd (getFlags env0 gen0 empty_store)"]
    getFlags_idempotent [of empty_store env0 gen0 "fst (getFlags env0 gen0 empty_store)"
      "snd (getFlags env0 gen0 empty_store)" env0 gen0
      "flagsObject (defaultFlags env0)" "snd (getFlags env0 gen0 empty_store)"]
  show ?thesis
    by (simp add: prod_eq_iff)
qed

section \<open>Properties of the server accessor\<close>

lemma put_simps:
  "colls (put st c ds) c = ds"
  "faults (put st c ds) = faults st"
  "db_connected (put st c ds) = db_connected st"
  by (simp_all add: put_def)

lemma canonical_valid: "canonical_oid i \<Longrightarrow> validateInput_objectId (JStr i) = Some i"
  by (auto simp: canonical_oid_def is_hex_def list_all_iff)

lemma canonical_lower: "canonical_oid i \<Longrightarrow> new_ObjectId i = i"
  unfolding canonical_oid_def new_ObjectId_def
  by (intro map_idI) (auto simp: list_all_iff lower_def)

lemma remove_first_fresh:
  "\<not> list_ex P xs \<Longrightarrow> P y \<Longrightarrow> remove_first P (xs @ [y]) = xs"
  by (induction xs) auto

lemma validatedData_fields:
  "server_name (validatedData sd) = validateInput_string (sd_server_name sd) 100"
  "country (validatedData sd) = validateInput_string (sd_country sd) 10"
  "flag (validatedData sd) = validateInput_string (sd_flag sd) 50"
  by (simp_all add: validatedData_def)

lemma addServer_rejects:
  "falsy (validateInput_string (sd_server_name sd) 100)
   \<or> falsy (validateInput_string (sd_country sd) 10)
   \<or> falsy (validateInput_string (sd_flag sd) 50)
   \<Longrightarrow> addServer env gen st sd = (Inl InvalidServerData, st)"
  by (auto simp: addServer_def validatedData_fields)

lemma addServer_inserts:
  assumes "\<not> falsy (validateInput_string (sd_server_name sd) 100)"
    and "\<not> falsy (validateInput_string (sd_country sd) 10)"
    and "\<not> falsy (validateInput_string (sd_flag sd) 50)"
    and "db_connected st" and "\<not> faults st (js ''servers'') InsertOne"
    and "\<not> has_oid (gen 0) (colls st (js ''servers''))"
  shows "addServer env gen st sd
           = (Inr \<lparr> insertedId = gen 0 \<rparr>,
              put st (js ''servers'')
                (colls st (js ''servers'')
                 @ [(validatedData sd) \<lparr> createdAt := Some (now env),
                                         updatedAt := Some (now env), oid := gen 0 \<rparr>]))"
  using assms
  by (simp add: addServer_def validatedData_fields getCollection_def dangerous_def insertOne_def)

lemma deleteServer_present:
  assumes "canonical_oid i" and "db_connected st" and "\<not> faults st (js ''servers'') DeleteOne"
    and "has_oid i (colls st (js ''servers''))"
  shows "deleteServer st (JStr i)
           = (Inr \<lparr> deletedCount = 1 \<rparr>,
              put st (js ''servers'') (remove_first (\<lambda>d. oid d = i) (colls st (js ''servers''))))"
  using assms
  by (simp add: deleteServer_def canonical_valid canonical_lower getCollection_def dangerous_def
      deleteOne_def del: validateInput_objectId.simps)

lemma deleteServer_absent:
  assumes "canonical_oid i" and "db_connected st" and "\<not> faults st (js ''servers'') DeleteOne"
    and "\<not> has_oid i (colls st (js ''servers''))"
  shows "deleteServer st (JStr i) = (Inr \<lparr> deletedCount = 0 \<rparr>, st)"
  using assms
  by (simp add: deleteServer_def canonical_valid canonical_lower getCollection_def dangerous_def
      deleteOne_def del: validateInput_objectId.simps)

text \<open>
  Claim C7, as amended.  Let the name, the country and the flag of a request each be
  accepted by the validation utility with a result that is not empty, the connection be
  up, the driver accept the insert and the delete, and the identifier it generates be
  canonical and new to the collection.  Then \<open>addServer\<close> inserts one record and returns
  that identifier, \<open>deleteServer\<close> on it reports one deletion, and \<open>deleteServer\<close> on it
  once more reports none.  When a required field is rejected or is empty after
  sanitisation, \<open>addServer\<close> fails with the validation error and the store is as before.
\<close>

theorem addServer_then_deleteServer:
  "(\<not> falsy (validateInput_string (sd_server_name sd) 100)
     \<and> \<not> falsy (validateInput_string (sd_country sd) 10)
     \<and> \<not> falsy (validateInput_string (sd_flag sd) 50)
     \<and> db_connected st
     \<and> \<not> faults st (js ''servers'') InsertOne \<and> \<not> faults st (js ''servers'') DeleteOne
     \<and> canonical_oid (gen 0) \<and> \<not> has_oid (gen 0) (colls st (js ''servers''))
    \<longrightarrow> (\<exists>st1 st2.
          addServer env gen st sd = (Inr \<lparr> insertedId = gen 0 \<rparr>, st1)
          \<and> length (colls st1 (js ''servers'')) = Suc (length (colls st (js ''servers'')))
          \<and> deleteServer st1 (JStr (gen 0)) = (Inr \<lparr> deletedCount = 1 \<rparr>, st2)
          \<and> deleteServer st2 (JStr (gen 0)) = (Inr \<lparr> deletedCount = 0 \<rparr>, st2)
          \<and> colls st2 (js ''servers'') = colls st (js ''servers'')))
   \<and> (falsy (validateInput_string (sd_server_name sd) 100)
       \<or> falsy (validateInput_string (sd_country sd) 10)
       \<or> falsy (validateInput_string (sd_flag sd) 50)
      \<longrightarrow> addServer env gen st sd = (Inl InvalidServerData, st))"
proof (intro conjI impI)
  assume a: "\<not> falsy (validateInput_string (sd_server_name sd) 100)
     \<and> \<not> falsy (validateInput_string (sd_country sd) 10)
     \<and> \<not> falsy (validateInput_string (sd_flag sd) 50)
     \<and> db_connected st
     \<and> \<not> faults st (js ''servers'') InsertOne \<and> \<not> faults st (js ''servers'') DeleteOne
     \<and> canonical_oid (gen 0) \<and> \<not> has_oid (gen 0) (colls st (js ''servers''))"
  let ?S = "js ''servers''"
  define d where "d = (validatedData sd) \<lparr> createdAt := Some (now env),
                                         updatedAt := Some (now env), oid := gen 0 \<rparr>"
  have d: "oid d = gen 0"
    "addServer env gen st sd = (Inr \<lparr> insertedId = gen 0 \<rparr>, put st ?S (colls st ?S @ [d]))"
    using a addServer_inserts [of sd st gen env] by (simp_all add: d_def)
  let ?st1 = "put st ?S (colls st ?S @ [d])"
  let ?st2 = "put ?st1 ?S (colls st ?S)"
  have present: "has_oid (gen 0) (colls ?st1 ?S)"
    using d(1) by (simp add: put_simps has_oid_def)
  have rm: "remove_first (\<lambda>x. oid x = gen 0) (colls ?st1 ?S) = colls st ?S"
    using a d(1) by (simp add: put_simps has_oid_def remove_first_fresh)
  have del1: "deleteServer ?st1 (JStr (gen 0)) = (Inr \<lparr> deletedCount = 1 \<rparr>, ?st2)"
    using deleteServer_present [of "gen 0" ?st1] a present rm by (simp add: put_simps)
  have del2: "deleteServer ?st2 (JStr (gen 0)) = (Inr \<lparr> deletedCount = 0 \<rparr>, ?st2)"
    using deleteServer_absent [of "gen 0" ?st2] a by (simp add: put_simps)
  have "length (colls ?st1 ?S) = Suc (length (colls st ?S))"
    by (simp add: put_simps)
  moreover have "colls ?st2 ?S = colls st ?S"
    by (simp add: put_simps)
  ultimately show "\<exists>st1 st2.
          addServer env gen st sd = (Inr \<lparr> insertedId = gen 0 \<rparr>, st1)
          \<and> length (colls st1 (js ''servers'')) = Suc (length (colls st (js ''servers'')))
          \<and> deleteServer st1 (JStr (gen 0)) = (Inr \<lparr> deletedCount = 1 \<rparr>, st2)
          \<and> deleteServer st2 (JStr (gen 0)) = (Inr \<lparr> deletedCount = 0 \<rparr>, st2)
          \<and> colls st2 (js ''servers'') = colls st (js ''servers'')"
    using d(2) del1 del2 by blast
next
  assume "falsy (validateInput_string (sd_server_name sd) 100)
       \<or> falsy (validateInput_string (sd_country sd) 10)
       \<or> falsy (validateInput_string (sd_flag sd) 50)"
  then show "addServer env gen st sd = (Inl InvalidServerData, st)"
    by (rule addServer_rejects)
qed

theorem addServer_then_deleteServer_witness:
  "(\<exists>st1 st2.
      addServer env0 gen0 empty_store mumbai = (Inr \<lparr> insertedId = gen0 0 \<rparr>, st1)
      \<and> length (colls st1 (js ''servers'')) = 1
      \<and> deleteServer st1 (JStr (gen0 0)) = (Inr \<lparr> deletedCount = 1 \<rparr>, st2)
      \<and> deleteServer st2 (JStr (gen0 0)) = (Inr \<lparr> deletedCount = 0 \<rparr>, st2)
      \<and> colls st2 (js ''servers'') = [])
   \<and> addServer env0 gen0 empty_store markup_name = (Inl InvalidServerData, empty_store)"
proof -
  have 1: "\<not> falsy (validateInput_string (sd_server_name mumbai) 100)
     \<and> \<not> falsy (validateInput_string (sd_country mumbai) 10)
     \<and> \<not> falsy (validateInput_string (sd_flag mumbai) 50)"
    by (simp add: mumbai_def falsy_def dangerous_def regional_def)
  have 2: "db_connected empty_store
     \<and> \<not> faults empty_store (js ''servers'') InsertOne
     \<and> \<not> faults empty_store (js ''servers'') DeleteOne
     \<and> \<not> has_oid (gen0 0) (colls empty_store (js ''servers''))
     \<and> colls empty_store (js ''servers'') = []"
    by (simp add: empty_store_def store_of_def has_oid_def)
  have 3: "canonical_oid (gen0 0)"
    by (simp add: canonical_oid_def gen0_def list_all_iff)
  have 4: "falsy (validateInput_string (sd_server_name markup_name) 100)"
    by (simp add: markup_name_def falsy_def dangerous_def)
  from 1 2 3 4 addServer_then_deleteServer [of mumbai empty_store gen0 env0]
    addServer_then_deleteServer [of markup_name empty_store gen0 env0]
  show ?thesis by (simp add: has_oid_def)
qed

text \<open>
  Claim C7 as stated fails: the name \<^verbatim>\<open><>\<close> is accepted by the validation utility
  (the result is the empty string, not \<open>null\<close>), and so are the country and the flag,
  yet \<open>addServer\<close> rejects the request and inserts nothing.
\<close>

theorem addServer_counterexample:
  "validateInput_string (sd_server_name markup_name) 100 = Some []
   \<and> validateInput_string (sd_country markup_name) 10 = Some (js ''IN'')
   \<and> validateInput_string (sd_flag markup_name) 50 = Some (regional 8 13)
   \<and> db_connected empty_store
   \<and> addServer env0 gen0 empty_store markup_name = (Inl InvalidServerData, empty_store)"
  by (simp add: markup_name_def dangerous_def regional_def addServer_def validatedData_def
      falsy_def empty_store_def store_of_def)

section \<open>Evaluation of numbers\<close>

lemma fl_round_10_005: "fl_round (10005 / 1000) = Fin (5632314283980227 / 562949953421312)"
  by code_simp

lemma fl_round_5_01: "fl_round (501 / 100) = Fin (2820379266640773 / 562949953421312)"
  by code_simp

lemma sum_10_005_0_m5:
  "foldl js_add (Fin 0) [fl_round (10005 / 1000), Fin 0, Fin (- 5)]
     = Fin (2817564516873667 / 562949953421312)"
  by code_simp

lemma toFixed2_5_005: "toFixed2 big (Fin (2817564516873667 / 562949953421312)) = js ''5.01''"
  by (simp add: toFixed2_eval)

lemmas parseFloat_eval = parseFloat_def is_ws_def unsigned_literal_def unsigned_decimal_def
  is_digit_def digits_val_def exponent_part_def pow10_def

lemma parseFloat_5_01: "parseFloat (js ''5.01'') = fl_round (501 / 100)"
  by (simp add: parseFloat_eval)

section \<open>Properties of the balance total\<close>

lemma first_or_if: "first_or d (if b then [] else [x]) = (if b then d else x)"
  by (simp add: first_or_def)

lemma getBotStats_try_ok:
  assumes "\<not> users_read_fails env st"
  shows "getBotStats_try env st =
     Inr \<lparr> totalUsers = length (colls st (users_collection_name env)),
           todaysUsers = length (filter (\<lambda>u. since (today env) (created_at u))
                                   (colls st (users_collection_name env))),
           totalBalance =
             parseFloat (toFixed2 (number_toString env)
               (if colls st (users_collection_name env) = [] then Fin 0
                else foldl js_add (Fin 0) (numeric_balances (colls st (users_collection_name env))))),
           todaysTransactions =
             length (filter (\<lambda>t. since (yesterday env) (tx_created_at t))
                       (unwind (colls st (users_collection_name env)))),
           totalTransactions = 0,
           todaysNumbersSold =
             length (filter (\<lambda>t. is_number_purchase t \<and> since (yesterday env) (tx_created_at t))
                       (unwind (colls st (users_collection_name env)))),
           totalNumbersSold =
             length (filter is_number_purchase (unwind (colls st (users_collection_name env)))) \<rparr>"
proof -
  from assms have "getCollection st (users_collection_name env) = Inr (users_collection_name env)"
    by (simp add: users_read_fails_def getCollection_Inr)
  with assms show ?thesis
    by (simp add: getBotStats_try_def users_read_fails_def countDocuments_def
        countDocuments_created_since_def aggregate_totalBalance_def aggregate_count_def
        first_or_count_stage first_or_if)
qed

lemma numeric_balances_map:
  "numeric_balances ds = concat (map (\<lambda>b. case b of None \<Rightarrow> [] | Some x \<Rightarrow> [x]) (map balance ds))"
  by (simp add: numeric_balances_def comp_def)

lemma getBotStats_try_fields:
  assumes "\<not> users_read_fails env st"
  shows "\<exists>s. getBotStats env st = Inr s
           \<and> totalUsers s = length (colls st (users_collection_name env))
           \<and> totalBalance s =
               parseFloat (toFixed2 (number_toString env)
                 (if colls st (users_collection_name env) = [] then Fin 0
                  else foldl js_add (Fin 0)
                         (numeric_balances (colls st (users_collection_name env)))))"
  by (simp add: getBotStats_def getBotStats_try_ok [OF assms])

lemma rounded_5_005:
  "parseFloat (toFixed2 big (Fin (2817564516873667 / 562949953421312))) = fl_round (501 / 100)"
  by (simp only: toFixed2_5_005 parseFloat_5_01)

text \<open>
  Claim C10, as amended.  When no read fails and the users collection holds exactly
  three users with the balances 10.005, 0 and -5, \<open>getBotStats\<close> reports three users and
  the total balance 5.01: the sum of the doubles is 5.00500000000000078..., which
  \<open>toFixed(2)\<close> prints as \<open>5.01\<close>, and \<open>parseFloat\<close> reads that as the double nearest
  to 5.01.
\<close>

theorem totalBalance_scenario:
  "\<not> users_read_fails env st
   \<and> map balance (colls st (users_collection_name env))
       = [Some (fl_round (10005 / 1000)), Some (Fin 0), Some (Fin (- 5))]
   \<longrightarrow> (\<exists>s. getBotStats env st = Inr s
          \<and> totalBalance s = fl_round (501 / 100)
          \<and> totalBalance s = Fin (2820379266640773 / 562949953421312)
          \<and> totalUsers s = 3)"
proof
  assume a: "\<not> users_read_fails env st
   \<and> map balance (colls st (users_collection_name env))
       = [Some (fl_round (10005 / 1000)), Some (Fin 0), Some (Fin (- 5))]"
  let ?ds = "colls st (users_collection_name env)"
  from a have nb: "numeric_balances ?ds = [fl_round (10005 / 1000), Fin 0, Fin (- 5)]"
    by (simp add: numeric_balances_map)
  from a have "length (map balance ?ds) = 3" by simp
  then have len: "length ?ds = 3" by simp
  then have ne: "?ds \<noteq> []" by auto
  have tb: "(if ?ds = [] then Fin 0 else foldl js_add (Fin 0) (numeric_balances ?ds))
      = Fin (2817564516873667 / 562949953421312)"
    using ne by (simp only: if_False nb sum_10_005_0_m5)
  from a obtain s where s: "getBotStats env st = Inr s" "totalUsers s = length ?ds"
    "totalBalance s = parseFloat (toFixed2 (number_toString env)
        (if ?ds = [] then Fin 0 else foldl js_add (Fin 0) (numeric_balances ?ds)))"
    using getBotStats_try_fields [of env st] by blast
  from s(3) have "totalBalance s = fl_round (501 / 100)"
    by (simp only: tb rounded_5_005)
  moreover from this have "totalBalance s = Fin (2820379266640773 / 562949953421312)"
    by (simp only: fl_round_5_01)
  ultimately show "\<exists>s. getBotStats env st = Inr s
          \<and> totalBalance s = fl_round (501 / 100)
          \<and> totalBalance s = Fin (2820379266640773 / 562949953421312)
          \<and> totalUsers s = 3"
    using s(1,2) len by auto
qed

lemma three_users_ok: "\<not> users_read_fails env0 three_users"
  by (simp add: users_read_fails_def three_users_def store_of_def users_collection_name_def
      env0_def falsy_def dangerous_def)

theorem totalBalance_scenario_witness:
  "\<not> users_read_fails env0 three_users
   \<and> map balance (colls three_users (users_collection_name env0))
       = [Some (fl_round (10005 / 1000)), Some (Fin 0), Some (Fin (- 5))]
   \<and> (\<exists>s. getBotStats env0 three_users = Inr s
          \<and> totalBalance s = fl_round (501 / 100)
          \<and> totalUsers s = 3)"
proof -
  have "map balance (colls three_users (users_collection_name env0))
       = [Some (fl_round (10005 / 1000)), Some (Fin 0), Some (Fin (- 5))]"
    by (simp add: three_users_def store_of_def users_collection_name_def env0_def)
  with three_users_ok totalBalance_scenario [of env0 three_users]
  show ?thesis by blast
qed

text \<open>
  Claim C10 as stated fails: on the store with exactly these three users the reported
  total balance is the double 5.01, not 5.
\<close>

theorem totalBalance_counterexample:
  "getBotStats env0 three_users =
     Inr \<lparr> totalUsers = 3, todaysUsers = 0,
           totalBalance = Fin (2820379266640773 / 562949953421312),
           todaysTransactions = 0, totalTransactions = 0,
           todaysNumbersSold = 0, totalNumbersSold = 0 \<rparr>
   \<and> Fin (2820379266640773 / 562949953421312) \<noteq> Fin 5
   \<and> Fin (2820379266640773 / 562949953421312) = fl_round (501 / 100)"
proof -
  let ?ds = "colls three_users (users_collection_name env0)"
  have u: "?ds =
      [blank \<lparr> balance := Some (fl_round (10005 / 1000)) \<rparr>,
       blank \<lparr> balance := Some (Fin 0) \<rparr>,
       blank \<lparr> balance := Some (Fin (- 5)) \<rparr>]"
    by (simp add: three_users_def store_of_def users_collection_name_def env0_def)
  have nb: "numeric_balances ?ds = [fl_round (10005 / 1000), Fin 0, Fin (- 5)]"
    unfolding u numeric_balances_def by simp
  have ne: "?ds \<noteq> []" unfolding u by simp
  have tb: "(if ?ds = [] then Fin 0 else foldl js_add (Fin 0) (numeric_balances ?ds))
      = Fin (2817564516873667 / 562949953421312)"
    using ne by (simp only: if_False nb sum_10_005_0_m5)
  have bal: "parseFloat (toFixed2 (number_toString env0)
        (if ?ds = [] then Fin 0 else foldl js_add (Fin 0) (numeric_balances ?ds)))
      = Fin (2820379266640773 / 562949953421312)"
    by (simp only: tb rounded_5_005 fl_round_5_01)
  have cnt: "length ?ds = 3"
    "filter (\<lambda>u. since (today env0) (created_at u)) ?ds = []"
    "unwind ?ds = []"
    unfolding u by (simp_all add: blank_def since_def unwind_def)
  have "getBotStats_try env0 three_users =
     Inr \<lparr> totalUsers = 3, todaysUsers = 0,
           totalBalance = Fin (2820379266640773 / 562949953421312),
           todaysTransactions = 0, totalTransactions = 0,
           todaysNumbersSold = 0, totalNumbersSold = 0 \<rparr>"
    unfolding getBotStats_try_ok [OF three_users_ok] bal cnt by simp
  then show ?thesis
    by (simp add: getBotStats_def fl_round_5_01)
qed

section \<open>Properties of the dashboard cache updater\<close>

lemma fl_round_0: "fl_round 0 = Fin 0"
  by (simp add: fl_round_def)

lemma fl_round_150: "fl_round 150 = Fin 150"
  by code_simp

lemma fl_round_600: "fl_round 600 = Fin 600"
  by code_simp

lemma parseFloat_150: "parseFloat (js ''150'') = Fin 150"
  by (simp add: parseFloat_eval fl_round_150)

lemma parseFloat_abc: "parseFloat (js ''abc'') = NaN"
  by (simp add: parseFloat_eval)

lemma price_number_150: "price_number (price priced_150) = Inr (Fin 150)"
  using parseFloat_150 by (simp add: priced_150_def)

lemma price_number_abc: "price_number (price priced_abc) = Inr NaN"
  using parseFloat_abc by (simp add: priced_abc_def)

lemma users_priced: "users_or_0 (users priced_150) = Fin 4" "users_or_0 (users priced_abc) = Fin 1"
  by (simp_all add: priced_150_def priced_abc_def users_or_0_def num_or_0_def)

lemma totalEarnings_150: "totalEarnings [priced_150] = Inr (Fin 600)"
  by (simp add: totalEarnings_def price_number_150 users_priced fl_round_600)

lemma totalEarnings_abc_150: "totalEarnings [priced_abc, priced_150] = Inr NaN"
  by (simp add: totalEarnings_def price_number_150 price_number_abc users_priced)

text \<open>
  Claim C1 at two inputs.  The service priced at 150 rupees with four users alone gives
  total earnings of 600, printed \<open>600.00\<close>.  With the service whose price does not
  parse before it, \<open>parseFloat\<close> yields \<open>NaN\<close> for that service, the product and every
  later sum are \<open>NaN\<close>, and \<open>updateDashboardStats\<close> stores the rupee sign followed by
  \<open>NaN\<close> as the total earnings: the other service's 600 is lost.
\<close>

theorem totalEarnings_malformed_price:
  "totalEarnings [priced_150] = Inr (Fin 600)
   \<and> toFixed2 (number_toString env0) (Fin 600) = js ''600.00''
   \<and> totalEarnings [priced_abc, priced_150] = Inr NaN
   \<and> fst (updateDashboardStats env0 gen0 malformed_price) = Inr True
   \<and> map stat_totalEarnings (colls (snd (updateDashboardStats env0 gen0 malformed_price)) (js ''stats''))
       = [Some (rupee # js ''NaN'')]"
proof -
  have "updateDashboardStats env0 gen0 malformed_price =
      (Inr True, put malformed_price (js ''stats'')
         [dashboard_fields env0 NaN (total_users [priced_abc, priced_150])
            (length [priced_abc, priced_150])
            (blank \<lparr> oid := gen0 0, doc_type := Some (js ''dashboard'') \<rparr>)])"
    by (simp add: updateDashboardStats_def getCollection_def dangerous_def countDocuments_def
        find_all_def malformed_price_def store_of_def totalEarnings_abc_150
        updateOne_upsert_def has_oid_def)
  then show ?thesis
    by (simp add: totalEarnings_150 totalEarnings_abc_150 toFixed2_eval put_simps
        dashboard_fields_def)
qed

end
